theory Spec2Isabelle
  imports Main "HOL-Library.AList"
begin

section \<open>The accounts service of services/users.service.js\<close>

text \<open>
  The service is a set of action handlers over one document collection
  (\<open>accounts\<close>). Each handler is embedded as a function from the world before the call
  to its outcome and the world after it. Everything a handler obtains from outside
  its own code is an explicit argument: the resolved configuration, the clock reading,
  the random draws, and the outcome of the mail service.

  The libraries the handlers call (bcrypt, jsonwebtoken, speakeasy, the database
  adapter) are not part of the repository. They are modelled symbolically, each model
  stated where it is introduced.
\<close>

subsection \<open>Errors\<close>

text \<open>The machine-readable codes, spelled as the source spells them.\<close>

datatype code =
    INVALID_TOKEN | USER_NOT_FOUND | ERR_ACCOUNT_NOT_VERIFIED | USER_DISABLED
  | ERR_SIGNUP_DISABLED | ERR_EMAIL_EXISTS | ERR_USERNAME_EMPTY | ERR_USERNAME_EXISTS
  | ERR_PASSWORD_EMPTY | ERR_USER_ALREADY_DISABLED | ERR_USER_ALREADY_ENABLED
  | ERR_PASSWORDLESS_DISABLED | ERR_ACCOUNT_DISABLED | TOKEN_EXPIRED
  | ERR_EMAIL_NOT_FOUND | MISSING_USER_ID | ERR_USER_NOT_FOUND
  | ERR_PASSWORDLESS_WITH_PASSWORD | ERR_WRONG_PASSWORD | ERR_PASSWORDLESS_UNAVAILABLE
  | ERR_MISSING_2FA_CODE | TWOFACTOR_INVALID_TOKEN | ERR_SOCIAL_ACCOUNT_MISMATCH
  | ERR_NO_SOCIAL_EMAIL | ACCOUNT_DISABLED | TWOFACTOR_NOT_ENABLED
  | UNABLE_GENERATE_TOKEN

text \<open>
  \<open>MoleculerClientError\<close> and \<open>MoleculerRetryableError\<close> carry the status and the code
  (the message is dropped). \<open>TypeError\<close> is what JavaScript throws when a property of
  \<open>undefined\<close> or \<open>null\<close> is read or set (\<open>PropertyOfUndefined\<close>, with the property) and
  when a value that is not a function is called (\<open>NotAFunction\<close>, with the name
  called). \<open>MailError\<close> is the error \<open>sendMail\<close> rethrows when the call to the mail
  service fails. \<open>BcryptError\<close> is the rejection of \<open>bcrypt.compare\<close> when it is given no
  hash.
\<close>

datatype type_error = PropertyOfUndefined string | NotAFunction string

datatype error =
    MoleculerClientError nat code
  | MoleculerRetryableError nat code
  | TypeError type_error
  | MailError
  | BcryptError

subsection \<open>JavaScript values the handlers compare\<close>

text \<open>
  The expiry fields are read with \<open><\<close> against \<open>Date.now()\<close>. A field may be absent
  (\<open>undefined\<close>), cleared (\<open>null\<close>), \<open>NaN\<close> (the sum of a number and
  \<open>Number(undefined)\<close>), or a number. \<open>undefined\<close> and \<open>NaN\<close> compare false with every
  number; \<open>null\<close> converts to 0.
\<close>

datatype jsnum = JUndefined | JNull | JNaN | JNum int

fun js_lt :: "jsnum \<Rightarrow> int \<Rightarrow> bool" where
  "js_lt (JNum a) n = (a < n)"
| "js_lt JNull n = (0 < n)"
| "js_lt JUndefined n = False"
| "js_lt JNaN n = False"

text \<open>\<open>Date.now() + Number(process.env.X)\<close>: an unset variable gives \<open>NaN\<close>.\<close>

fun js_add_env :: "int \<Rightarrow> int option \<Rightarrow> jsnum" where
  "js_add_env n None = JNaN"
| "js_add_env n (Some d) = JNum (n + d)"

text \<open>Truthiness of an optional string parameter: absent and empty are both falsy.\<close>

fun truthy :: "string option \<Rightarrow> bool" where
  "truthy None = False"
| "truthy (Some s) = (s \<noteq> [])"

subsection \<open>bcrypt\<close>

text \<open>
  The \<open>password\<close> field of a document holds either the output of \<open>bcrypt.hash\<close> or, for
  an account registered without a password, the output of \<open>generateToken()\<close> (50 hex
  digits, which is not a bcrypt hash). The two are kept apart by constructor. A hash is
  represented by its salt and the bytes bcrypt reads of the plaintext (the first 72);
  \<open>bcrypt.compare\<close> answers false on a string that is not a hash.
\<close>

datatype stored_password = Bcrypt string string | Opaque string

definition bcrypt_hash :: "string \<Rightarrow> string \<Rightarrow> stored_password" where
  "bcrypt_hash plain salt = Bcrypt salt (take 72 plain)"

fun bcrypt_compare :: "string \<Rightarrow> stored_password option \<Rightarrow> error + bool" where
  "bcrypt_compare plain None = Inl BcryptError"
| "bcrypt_compare plain (Some (Bcrypt salt h)) = Inr (take 72 plain = h)"
| "bcrypt_compare plain (Some (Opaque s)) = Inr False"

fun is_hash :: "stored_password option \<Rightarrow> bool" where
  "is_hash (Some (Bcrypt salt h)) = True"
| "is_hash (Some (Opaque s)) = False"
| "is_hash None = False"

subsection \<open>Configuration and outside inputs\<close>

text \<open>
  The keys of \<open>this.config\<close> and the variables of \<open>process.env\<close> that the service
  reads. The numeric variables are given as \<open>Number(...)\<close> reads them, \<open>None\<close> when the
  result is \<open>NaN\<close>. \<open>accounts.jwt.expiresIn\<close> is taken in seconds.
\<close>

record config =
  accounts_signup_enabled :: bool
  accounts_username_enabled :: bool
  accounts_passwordless_enabled :: bool
  accounts_verification_enabled :: bool
  accounts_defaultRoles :: "string list"
  accounts_defaultPlan :: string
  accounts_jwt_expiresIn :: "int option"
  mail_enabled :: bool
  site_name :: string
  site_url :: string
  JWT_SECRET :: "string option"
  ACCOUNTS_RESET_TOKEN_EXPIRES :: "int option"
  ACCOUNTS_PASSWORDLESS_TOKEN_EXPIRES :: "int option"

text \<open>
  What one call of a handler reads from outside: the clock (\<open>Date.now()\<close>, milliseconds,
  read once per call), the results of its calls of \<open>generateToken()\<close> (at most two),
  the salt \<open>bcrypt.hash\<close> draws, the secret speakeasy draws, the random part of a
  \<open>bcrypt.genSalt()\<close> result, and whether the mail service accepts a message.
\<close>

record io =
  now :: int
  token1 :: string
  token2 :: string
  salt :: string
  secret_base32 :: string
  secret_ascii :: string
  genSalt :: string
  mail_delivers :: bool

subsection \<open>jsonwebtoken\<close>

text \<open>
  A signed token is represented by the key it was signed with and its claims; a string
  that is not a token by \<open>Malformed\<close>. \<open>jwt.sign\<close> fails without a key or without a
  valid \<open>expiresIn\<close>; it stamps \<open>iat\<close> with the clock in seconds and \<open>exp\<close> with
  \<open>iat + expiresIn\<close>. \<open>jwt.verify\<close> fails without a key, on a malformed token, on a
  token signed with another key, and once the clock in seconds has reached \<open>exp\<close>.
\<close>

record claims =
  claim_id :: "nat option"
  iat :: int
  exp :: int

datatype jwt = Signed string claims | Malformed string

fun jwt_sign :: "nat option \<Rightarrow> string option \<Rightarrow> int option \<Rightarrow> int \<Rightarrow> jwt option" where
  "jwt_sign payload (Some key) (Some expiresIn) t =
     (if key = [] then None
      else Some (Signed key \<lparr>claim_id = payload, iat = t div 1000,
                              exp = t div 1000 + expiresIn\<rparr>))"
| "jwt_sign payload key expiresIn t = None"

fun jwt_verify :: "jwt \<Rightarrow> string option \<Rightarrow> int \<Rightarrow> claims option" where
  "jwt_verify (Signed key c) (Some secret) t =
     (if secret = [] \<or> key \<noteq> secret \<or> exp c \<le> t div 1000 then None else Some c)"
| "jwt_verify tok secret t = None"

text \<open>\<open>expiresIn || this.config["accounts.jwt.expiresIn"]\<close>: 0 is falsy.\<close>

fun jwtExpiresIn :: "config \<Rightarrow> int option \<Rightarrow> int option" where
  "jwtExpiresIn cfg (Some n) = (if n = 0 then accounts_jwt_expiresIn cfg else Some n)"
| "jwtExpiresIn cfg None = accounts_jwt_expiresIn cfg"

definition generateJWT :: "config \<Rightarrow> int \<Rightarrow> nat option \<Rightarrow> int option \<Rightarrow> error + jwt" where
  "generateJWT cfg t payload expiresIn =
     (case jwt_sign payload (JWT_SECRET cfg) (jwtExpiresIn cfg expiresIn) t of
        None \<Rightarrow> Inl (MoleculerRetryableError 500 UNABLE_GENERATE_TOKEN)
      | Some token \<Rightarrow> Inr token)"

definition verifyJWT :: "config \<Rightarrow> int \<Rightarrow> jwt \<Rightarrow> error + claims" where
  "verifyJWT cfg t token =
     (case jwt_verify token (JWT_SECRET cfg) t of
        None \<Rightarrow> Inl (MoleculerClientError 401 INVALID_TOKEN)
      | Some decoded \<Rightarrow> Inr decoded)"

subsection \<open>Documents\<close>

text \<open>
  A document of the \<open>accounts\<close> collection. The identifier \<open>_id\<close> is a natural number
  (\<open>toString\<close>, \<open>decodeID\<close> and the identifier encoding of the database mixin are the
  identity on it). Optional string fields are \<open>None\<close> when absent or \<open>null\<close>. The
  default avatar is the Gravatar address of the MD5 digest of the e-mail, kept
  symbolic.
\<close>

record totp =
  enabled :: bool
  secret :: "string option"

datatype avatar = Url string | Gravatar string

record account =
  acc_id :: nat
  username :: "string option"
  email :: string
  firstName :: string
  lastName :: string
  password :: "stored_password option"
  avatar :: avatar
  roles :: "string list"
  plan :: string
  socialLinks :: "(string \<times> string) list"
  status :: int
  verified :: bool
  verificationToken :: "string option"
  passwordless :: bool
  passwordlessToken :: "string option"
  passwordlessTokenExpires :: jsnum
  resetToken :: "string option"
  resetTokenExpires :: jsnum
  totp :: "totp option"
  createdAt :: int

text \<open>A message handed to the mail service: recipient, template, and the token in its data.\<close>

record mail =
  mail_to :: string
  template :: string
  mail_token :: "string option"

text \<open>The world a handler runs in: the collection, in insertion order, and the mails sent.\<close>

record world =
  accounts :: "account list"
  outbox :: "mail list"

subsection \<open>The database adapter\<close>

text \<open>
  \<open>findOne\<close> returns the first document that satisfies the query, \<open>findById\<close> the
  first with the identifier. \<open>insert\<close> gives the entity an identifier no document has
  and appends it. \<open>updateById\<close> applies the \<open>$set\<close> or \<open>$unset\<close> modifier to the first
  document with the identifier and returns the updated document, or nothing when there
  is none.
\<close>

definition findOne :: "(account \<Rightarrow> bool) \<Rightarrow> world \<Rightarrow> account option" where
  "findOne query w = find query (accounts w)"

definition findById :: "nat option \<Rightarrow> world \<Rightarrow> account option" where
  "findById i w = (case i of None \<Rightarrow> None | Some n \<Rightarrow> find (\<lambda>a. acc_id a = n) (accounts w))"

definition fresh_id :: "account list \<Rightarrow> nat" where
  "fresh_id as = Suc (foldr max (map acc_id as) 0)"

definition insert_doc :: "account \<Rightarrow> world \<Rightarrow> account \<times> world" where
  "insert_doc entity w =
     (let user = entity\<lparr>acc_id := fresh_id (accounts w)\<rparr>
      in (user, w\<lparr>accounts := accounts w @ [user]\<rparr>))"

fun update_first :: "nat \<Rightarrow> (account \<Rightarrow> account) \<Rightarrow> account list \<Rightarrow> account list" where
  "update_first i f [] = []"
| "update_first i f (a # as) = (if acc_id a = i then f a # as else a # update_first i f as)"

definition updateById :: "nat \<Rightarrow> (account \<Rightarrow> account) \<Rightarrow> world \<Rightarrow> account option \<times> world" where
  "updateById i f w =
     (let w' = w\<lparr>accounts := update_first i f (accounts w)\<rparr>
      in (find (\<lambda>a. acc_id a = i) (accounts w'), w'))"

text \<open>The dotted paths \<open>totp.enabled\<close> and \<open>totp.secret\<close> of a \<open>$set\<close> create the
  sub-document when it is absent.\<close>

definition set_totp_enabled :: "bool \<Rightarrow> account \<Rightarrow> account" where
  "set_totp_enabled b a =
     a\<lparr>totp := Some (case totp a of None \<Rightarrow> \<lparr>enabled = b, secret = None\<rparr>
                         | Some t \<Rightarrow> t\<lparr>enabled := b\<rparr>)\<rparr>"

definition set_totp_secret :: "string option \<Rightarrow> account \<Rightarrow> account" where
  "set_totp_secret s a =
     a\<lparr>totp := Some (case totp a of None \<Rightarrow> \<lparr>enabled = False, secret = s\<rparr>
                         | Some t \<Rightarrow> t\<lparr>secret := s\<rparr>)\<rparr>"

text \<open>\<open>user.totp && user.totp.enabled\<close>\<close>

definition totp_enabled :: "account \<Rightarrow> bool" where
  "totp_enabled a = (case totp a of None \<Rightarrow> False | Some t \<Rightarrow> enabled t)"

subsection \<open>Methods\<close>

definition getUserByEmail :: "string \<Rightarrow> world \<Rightarrow> account option" where
  "getUserByEmail e w = findOne (\<lambda>a. email a = e) w"

definition getUserByUsername :: "string \<Rightarrow> world \<Rightarrow> account option" where
  "getUserByUsername u w = findOne (\<lambda>a. username a = Some u) w"

text \<open>
  \<open>sendMail\<close>: false when mail is disabled; otherwise the message goes to the mail
  service, and a failure of that call is rethrown. Most handlers do not await the
  result, so for them only the effect on the outbox counts (\<open>sendMail_async\<close>).
\<close>

definition sendMail :: "config \<Rightarrow> io \<Rightarrow> account \<Rightarrow> string \<Rightarrow> string option \<Rightarrow> world
    \<Rightarrow> (error + bool) \<times> world" where
  "sendMail cfg x user tmpl tok w =
     (if \<not> mail_enabled cfg then (Inr False, w)
      else if mail_delivers x
        then (Inr True,
              w\<lparr>outbox := outbox w @ [\<lparr>mail_to = email user, template = tmpl, mail_token = tok\<rparr>]\<rparr>)
        else (Inl MailError, w))"

definition sendMail_async :: "config \<Rightarrow> io \<Rightarrow> account \<Rightarrow> string \<Rightarrow> string option \<Rightarrow> world \<Rightarrow> world" where
  "sendMail_async cfg x user tmpl tok w = snd (sendMail cfg x user tmpl tok w)"

definition getToken :: "config \<Rightarrow> io \<Rightarrow> account \<Rightarrow> error + jwt" where
  "getToken cfg x user = generateJWT cfg (now x) (Some (acc_id user)) None"

definition link :: "nat \<Rightarrow> string \<Rightarrow> string \<Rightarrow> world \<Rightarrow> account option \<times> world" where
  "link i provider socialID w =
     updateById i (\<lambda>a. a\<lparr>socialLinks := AList.update provider socialID (socialLinks a),
                           verified := True, verificationToken := None\<rparr>) w"

definition unlink :: "nat \<Rightarrow> string \<Rightarrow> world \<Rightarrow> account option \<times> world" where
  "unlink i provider w =
     updateById i (\<lambda>a. a\<lparr>socialLinks := AList.delete provider (socialLinks a)\<rparr>) w"

subsection \<open>Results crossing the service boundary\<close>

datatype jsval =
    VId nat | VStr string | VNum int | VBool bool | VStrs "string list"
  | VObj "(string \<times> string) list" | VAvatar avatar | VPassword stored_password
  | VExpires jsnum | VToken jwt

text \<open>The columns a stored document has, with \<open>user.token\<close> when the handler has set it.\<close>

fun column :: "string \<Rightarrow> 'a option \<Rightarrow> ('a \<Rightarrow> jsval) \<Rightarrow> (string \<times> jsval) list" where
  "column k None f = []"
| "column k (Some v) f = [(k, f v)]"

definition doc_of :: "jwt option \<Rightarrow> account \<Rightarrow> (string \<times> jsval) list" where
  "doc_of tok a =
     [(''_id'', VId (acc_id a))] @ column ''username'' (username a) VStr
     @ [(''email'', VStr (email a)), (''firstName'', VStr (firstName a)),
        (''lastName'', VStr (lastName a))]
     @ column ''password'' (password a) VPassword
     @ [(''avatar'', VAvatar (avatar a)), (''roles'', VStrs (roles a)),
        (''plan'', VStr (plan a)), (''socialLinks'', VObj (socialLinks a)),
        (''status'', VNum (status a)), (''verified'', VBool (verified a))]
     @ column ''verificationToken'' (verificationToken a) VStr
     @ [(''passwordless'', VBool (passwordless a))]
     @ column ''passwordlessToken'' (passwordlessToken a) VStr
     @ [(''passwordlessTokenExpires'', VExpires (passwordlessTokenExpires a))]
     @ column ''resetToken'' (resetToken a) VStr
     @ [(''resetTokenExpires'', VExpires (resetTokenExpires a))]
     @ column ''totp.enabled'' (map_option enabled (totp a)) VBool
     @ column ''totp.secret'' (Option.bind (totp a) secret) VStr
     @ [(''createdAt'', VNum (createdAt a))]
     @ column ''token'' tok VToken"

text \<open>\<open>settings.fields\<close>: the name of each field, its column, and whether it is hidden.\<close>

definition settings_fields :: "(string \<times> string \<times> bool) list" where
  "settings_fields =
     [(''id'', ''_id'', False), (''username'', ''username'', False),
      (''firstName'', ''firstName'', False), (''lastName'', ''lastName'', False),
      (''email'', ''email'', False), (''password'', ''password'', True),
      (''avatar'', ''avatar'', False), (''roles'', ''roles'', False),
      (''socialLinks'', ''socialLinks'', False), (''status'', ''status'', False),
      (''plan'', ''plan'', False), (''verified'', ''verified'', False),
      (''token'', ''token'', False), (''totp.enabled'', ''totp.enabled'', False),
      (''passwordless'', ''passwordless'', False),
      (''passwordlessTokenExpires'', ''passwordlessTokenExpires'', True),
      (''resetTokenExpires'', ''resetTokenExpires'', True),
      (''verificationToken'', ''verificationToken'', True),
      (''createdAt'', ''createdAt'', False), (''updatedAt'', ''updatedAt'', False),
      (''lastLoginAt'', ''lastLoginAt'', False)]"

text \<open>
  Modelled from the spec: \<open>transformDocuments\<close> belongs to mixins/db.mixin, which is not
  among the sources. The spec has the result of a handler be the sanitized account, a
  mapping that strips the password hash, the token fields and the TOTP secret. The
  model keeps, for each field that \<open>settings.fields\<close> declares and does not mark hidden,
  the value of its column.
\<close>

definition transformDocuments :: "jwt option \<Rightarrow> account \<Rightarrow> (string \<times> jsval) list" where
  "transformDocuments tok user =
     List.map_filter
       (\<lambda>(name, col, hidden).
          if hidden then None else map_option (Pair name) (map_of (doc_of tok user) col))
       settings_fields"

text \<open>\<open>user.token = await this.getToken(user); return this.transformDocuments(ctx, {}, user)\<close>\<close>

definition withToken :: "config \<Rightarrow> io \<Rightarrow> account \<Rightarrow> world
    \<Rightarrow> (error + (string \<times> jsval) list) \<times> world" where
  "withToken cfg x user w =
     (case getToken cfg x user of
        Inl e \<Rightarrow> (Inl e, w)
      | Inr t \<Rightarrow> (Inr (transformDocuments (Some t) user), w))"

subsection \<open>Actions\<close>

text \<open>
  The parameter validation that the framework runs before a handler (the \<open>params\<close>
  schemas) is not part of the handlers and is not modelled; a handler sees an optional
  string parameter as supplied when it is truthy.
\<close>

definition resolveToken :: "config \<Rightarrow> io \<Rightarrow> jwt \<Rightarrow> world \<Rightarrow> error + (string \<times> jsval) list" where
  "resolveToken cfg x token w =
     (case verifyJWT cfg (now x) token of
        Inl e \<Rightarrow> Inl e
      | Inr decoded \<Rightarrow>
          (case claim_id decoded of
             None \<Rightarrow> Inl (MoleculerClientError 401 INVALID_TOKEN)
           | Some i \<Rightarrow>
               (case findById (Some i) w of
                  None \<Rightarrow> Inl (MoleculerClientError 401 USER_NOT_FOUND)
                | Some user \<Rightarrow>
                    if \<not> verified user
                      then Inl (MoleculerClientError 401 ERR_ACCOUNT_NOT_VERIFIED)
                    else if status user \<noteq> 1
                      then Inl (MoleculerClientError 401 USER_DISABLED)
                    else Inr (transformDocuments None user))))"

record register_params =
  r_username :: "string option"
  r_password :: "string option"
  r_email :: string
  r_firstName :: string
  r_lastName :: string
  r_avatar :: "string option"

text \<open>The string of a parameter that has been tested truthy.\<close>

fun str :: "string option \<Rightarrow> string" where
  "str None = []"
| "str (Some s) = s"

text \<open>The username check of \<open>register\<close>: the username the entity gets, or the error.\<close>

definition register_username :: "config \<Rightarrow> register_params \<Rightarrow> world \<Rightarrow> error + string option" where
  "register_username cfg p w =
     (if accounts_username_enabled cfg then
        if \<not> truthy (r_username p)
          then Inl (MoleculerClientError 400 ERR_USERNAME_EMPTY)
        else (case getUserByUsername (str (r_username p)) w of
                Some found \<Rightarrow> Inl (MoleculerClientError 400 ERR_USERNAME_EXISTS)
              | None \<Rightarrow> Inr (r_username p))
      else Inr None)"

text \<open>"Generate passwordless token or hash password": the flag and the stored password.\<close>

definition register_password :: "config \<Rightarrow> io \<Rightarrow> register_params
    \<Rightarrow> error + bool \<times> stored_password" where
  "register_password cfg x p =
     (if truthy (r_password p)
        then Inr (False, bcrypt_hash (str (r_password p)) (salt x))
      else if accounts_passwordless_enabled cfg
        then Inr (True, Opaque (token1 x))
      else Inl (MoleculerClientError 400 ERR_PASSWORD_EMPTY))"

definition register :: "config \<Rightarrow> io \<Rightarrow> register_params \<Rightarrow> world
    \<Rightarrow> (error + (string \<times> jsval) list) \<times> world" where
  "register cfg x p w =
     (if \<not> accounts_signup_enabled cfg
        then (Inl (MoleculerClientError 400 ERR_SIGNUP_DISABLED), w)
      else case getUserByEmail (r_email p) w of
        Some found \<Rightarrow> (Inl (MoleculerClientError 400 ERR_EMAIL_EXISTS), w)
      | None \<Rightarrow>
        (case register_username cfg p w of
           Inl e \<Rightarrow> (Inl e, w)
         | Inr uname \<Rightarrow>
           (case register_password cfg x p of
              Inl e \<Rightarrow> (Inl e, w)
            | Inr (pwless, pw) \<Rightarrow>
                let entity =
                      \<lparr>acc_id = 0, username = uname, email = r_email p,
                       firstName = r_firstName p, lastName = r_lastName p,
                       password = Some pw,
                       avatar = (if truthy (r_avatar p) then Url (str (r_avatar p))
                                 else Gravatar (r_email p)),
                       roles = accounts_defaultRoles cfg, plan = accounts_defaultPlan cfg,
                       socialLinks = [], status = 1,
                       verified = \<not> accounts_verification_enabled cfg,
                       verificationToken =
                         (if accounts_verification_enabled cfg then Some (token2 x) else None),
                       passwordless = pwless,
                       passwordlessToken = None, passwordlessTokenExpires = JUndefined,
                       resetToken = None, resetTokenExpires = JUndefined,
                       totp = None, createdAt = now x\<rparr>;
                    (user, w1) = insert_doc entity w
                in if verified user then
                     withToken cfg x user (sendMail_async cfg x user ''welcome'' None w1)
                   else
                     (Inr (transformDocuments None user),
                      sendMail_async cfg x user ''activate'' (verificationToken entity) w1))))"

definition verify :: "config \<Rightarrow> io \<Rightarrow> string \<Rightarrow> world \<Rightarrow> (error + jwt) \<times> world" where
  "verify cfg x token w =
     (case findOne (\<lambda>a. verificationToken a = Some token) w of
        None \<Rightarrow> (Inl (MoleculerClientError 400 INVALID_TOKEN), w)
      | Some user \<Rightarrow>
          (case updateById (acc_id user) (\<lambda>a. a\<lparr>verified := True, verificationToken := None\<rparr>) w of
             (None, w1) \<Rightarrow> (Inl (TypeError (PropertyOfUndefined ''_id'')), w1)
           | (Some res, w1) \<Rightarrow>
               (getToken cfg x res, sendMail_async cfg x res ''welcome'' None w1)))"

text \<open>\<open>disable\<close> and \<open>enable\<close> receive the entity that the framework has loaded
  (\<open>needEntity\<close>); they return the status of the updated document.\<close>

definition disable :: "account \<Rightarrow> world \<Rightarrow> (error + int) \<times> world" where
  "disable user w =
     (if status user = 0
        then (Inl (MoleculerClientError 400 ERR_USER_ALREADY_DISABLED), w)
      else case updateById (acc_id user) (\<lambda>a. a\<lparr>status := 0\<rparr>) w of
             (None, w1) \<Rightarrow> (Inl (TypeError (PropertyOfUndefined ''status'')), w1)
           | (Some res, w1) \<Rightarrow> (Inr (status res), w1))"

definition enable :: "account \<Rightarrow> world \<Rightarrow> (error + int) \<times> world" where
  "enable user w =
     (if status user = 1
        then (Inl (MoleculerClientError 400 ERR_USER_ALREADY_ENABLED), w)
      else case updateById (acc_id user) (\<lambda>a. a\<lparr>status := 1\<rparr>) w of
             (None, w1) \<Rightarrow> (Inl (TypeError (PropertyOfUndefined ''status'')), w1)
           | (Some res, w1) \<Rightarrow> (Inr (status res), w1))"

text \<open>"Check passwordless token": the handler of the action \<open>passwordless\<close>.\<close>

definition passwordless_action :: "config \<Rightarrow> io \<Rightarrow> string \<Rightarrow> world \<Rightarrow> (error + jwt) \<times> world" where
  "passwordless_action cfg x token w =
     (if \<not> accounts_passwordless_enabled cfg
        then (Inl (MoleculerClientError 400 ERR_PASSWORDLESS_DISABLED), w)
      else case findOne (\<lambda>a. passwordlessToken a = Some token) w of
        None \<Rightarrow> (Inl (MoleculerClientError 400 INVALID_TOKEN), w)
      | Some user \<Rightarrow>
          if status user \<noteq> 1
            then (Inl (MoleculerClientError 400 ERR_ACCOUNT_DISABLED), w)
          else if js_lt (passwordlessTokenExpires user) (now x)
            then (Inl (MoleculerClientError 400 TOKEN_EXPIRED), w)
          else
            let w1 = (if \<not> verified user
                      then snd (updateById (acc_id user) (\<lambda>a. a\<lparr>verified := True\<rparr>) w)
                      else w)
            in (getToken cfg x user, w1))"

definition forgotpassword :: "config \<Rightarrow> io \<Rightarrow> string \<Rightarrow> world \<Rightarrow> (error + bool) \<times> world" where
  "forgotpassword cfg x e w =
     (let token = token1 x in
      case getUserByEmail e w of
        None \<Rightarrow> (Inl (MoleculerClientError 400 ERR_EMAIL_NOT_FOUND), w)
      | Some user \<Rightarrow>
          if \<not> verified user
            then (Inl (MoleculerClientError 400 ERR_ACCOUNT_NOT_VERIFIED), w)
          else if status user \<noteq> 1
            then (Inl (MoleculerClientError 400 ERR_ACCOUNT_DISABLED), w)
          else
            let w1 = snd (updateById (acc_id user)
                       (\<lambda>a. a\<lparr>resetToken := Some token,
                              resetTokenExpires :=
                                js_add_env (now x) (ACCOUNTS_RESET_TOKEN_EXPIRES cfg)\<rparr>) w)
            in (Inr True, sendMail_async cfg x user ''reset-password'' (Some token) w1))"

definition resetpassword :: "config \<Rightarrow> io \<Rightarrow> string \<Rightarrow> string \<Rightarrow> world \<Rightarrow> (error + jwt) \<times> world" where
  "resetpassword cfg x token pw w =
     (case findOne (\<lambda>a. resetToken a = Some token) w of
        None \<Rightarrow> (Inl (MoleculerClientError 400 INVALID_TOKEN), w)
      | Some user \<Rightarrow>
          if status user \<noteq> 1
            then (Inl (MoleculerClientError 400 ERR_ACCOUNT_DISABLED), w)
          else if js_lt (resetTokenExpires user) (now x)
            then (Inl (MoleculerClientError 400 TOKEN_EXPIRED), w)
          else
            let w1 = snd (updateById (acc_id user)
                       (\<lambda>a. a\<lparr>password := Some (bcrypt_hash pw (salt x)),
                              passwordless := False, verified := True,
                              resetToken := None, resetTokenExpires := JNull\<rparr>) w)
            in (getToken cfg x user, sendMail_async cfg x user ''password-changed'' None w1))"

text \<open>The actions \<open>link\<close> and \<open>unlink\<close>; \<open>unlink\<close> falls back on \<open>ctx.meta.userID\<close>.\<close>

record meta =
  userID :: "nat option"
  meta_user :: "string option"

text \<open>\<open>meta_user\<close> is the e-mail of \<open>ctx.meta.user\<close>, \<open>None\<close> when no user is logged in.\<close>

record profile =
  socialID :: string
  p_email :: "string option"
  p_username :: "string option"
  p_firstName :: string
  p_lastName :: string
  p_avatar :: "string option"

definition link_action :: "nat \<Rightarrow> string \<Rightarrow> profile \<Rightarrow> world
    \<Rightarrow> (error + (string \<times> jsval) list) \<times> world" where
  "link_action i provider prof w =
     (case link i provider (socialID prof) w of
        (None, w1) \<Rightarrow> (Inl (TypeError (PropertyOfUndefined ''_id'')), w1)
      | (Some res, w1) \<Rightarrow> (Inr (transformDocuments None res), w1))"

definition unlink_action :: "meta \<Rightarrow> nat option \<Rightarrow> string \<Rightarrow> world
    \<Rightarrow> (error + (string \<times> jsval) list) \<times> world" where
  "unlink_action m i provider w =
     (case (if i \<noteq> None then i else userID m) of
        None \<Rightarrow> (Inl (MoleculerClientError 400 MISSING_USER_ID), w)
      | Some n \<Rightarrow>
          (case unlink n provider w of
             (None, w1) \<Rightarrow> (Inl (TypeError (PropertyOfUndefined ''_id'')), w1)
           | (Some res, w1) \<Rightarrow> (Inr (transformDocuments None res), w1)))"

datatype login_result = SessionToken jwt | PasswordlessPending string

definition login_query :: "config \<Rightarrow> string \<Rightarrow> account \<Rightarrow> bool" where
  "login_query cfg e a =
     (if accounts_username_enabled cfg then email a = e \<or> username a = Some e
      else email a = e)"

text \<open>
  The handlers call \<open>this.verify2FA(secret, token)\<close> (in \<open>login\<close>, \<open>enable2Fa\<close> and
  \<open>disable2Fa\<close>), but the \<open>methods\<close> block of the service defines no \<open>verify2FA\<close>:
  \<open>this.verify2FA\<close> is \<open>undefined\<close> and the call throws a \<open>TypeError\<close>. The statements
  that follow such a call in the source are never reached.

  "Check Two-factor authentication" and the final return of \<open>login\<close>: with 2FA enabled
  and a code supplied, the handler calls \<open>this.verify2FA\<close>.
\<close>

definition login_2fa :: "config \<Rightarrow> io \<Rightarrow> account \<Rightarrow> string option \<Rightarrow> error + login_result" where
  "login_2fa cfg x user token =
     (if totp_enabled user \<and> \<not> truthy token
        then Inl (MoleculerClientError 400 ERR_MISSING_2FA_CODE)
      else if totp_enabled user
        then Inl (TypeError (NotAFunction ''verify2FA''))
      else map_sum id SessionToken (getToken cfg x user))"

text \<open>
  In the branch without a password \<open>login\<close> calls \<open>this.sendMagicLink(ctx, user)\<close>. The
  source declares \<open>sendMagicLink\<close> inside the \<open>actions\<close> block, not under \<open>methods\<close>, so
  it is not a function on \<open>this\<close>: the call throws a \<open>TypeError\<close> before a token is
  stored or a mail is sent, and the return of the pending indicator that follows it
  is never reached.
\<close>

definition login :: "config \<Rightarrow> io \<Rightarrow> string \<Rightarrow> string option \<Rightarrow> string option
    \<Rightarrow> world \<Rightarrow> (error + login_result) \<times> world" where
  "login cfg x e pw token w =
     (case findOne (login_query cfg e) w of
        None \<Rightarrow> (Inl (MoleculerClientError 400 ERR_USER_NOT_FOUND), w)
      | Some user \<Rightarrow>
          if \<not> verified user
            then (Inl (MoleculerClientError 400 ERR_ACCOUNT_NOT_VERIFIED), w)
          else if status user \<noteq> 1
            then (Inl (MoleculerClientError 400 ERR_ACCOUNT_DISABLED), w)
          else if passwordless user \<and> truthy pw
            then (Inl (MoleculerClientError 400 ERR_PASSWORDLESS_WITH_PASSWORD), w)
          else if truthy pw then
            (case bcrypt_compare (str pw) (password user) of
               Inl err \<Rightarrow> (Inl err, w)
             | Inr ok \<Rightarrow>
                 if \<not> ok then (Inl (MoleculerClientError 400 ERR_WRONG_PASSWORD), w)
                 else (login_2fa cfg x user token, w))
          else if accounts_passwordless_enabled cfg then
            if \<not> mail_enabled cfg
              then (Inl (MoleculerClientError 400 ERR_PASSWORDLESS_UNAVAILABLE), w)
            else (Inl (TypeError (NotAFunction ''sendMagicLink'')), w)
          else (Inl (MoleculerClientError 400 ERR_PASSWORDLESS_DISABLED), w))"

text \<open>The identifier a transformed document shows.\<close>

definition dto_id :: "(string \<times> jsval) list \<Rightarrow> nat option" where
  "dto_id d = (case map_of d ''id'' of Some (VId i) \<Rightarrow> Some i | _ \<Rightarrow> None)"

text \<open>\<open>profile.username || profile.email.split("@")[0]\<close>\<close>

definition social_username :: "profile \<Rightarrow> string" where
  "social_username prof =
     (if truthy (p_username prof) then str (p_username prof)
      else takeWhile (\<lambda>c. c \<noteq> CHR ''@'') (str (p_email prof)))"

text \<open>The tail shared by the branches of \<open>socialLogin\<close> that link:
  \<open>user = await this.link(...); user.token = ...; return transformDocuments(...)\<close>.\<close>

definition link_withToken :: "config \<Rightarrow> io \<Rightarrow> nat option \<Rightarrow> string \<Rightarrow> profile \<Rightarrow> world
    \<Rightarrow> (error + (string \<times> jsval) list) \<times> world" where
  "link_withToken cfg x i provider prof w =
     (case i of
        None \<Rightarrow> (Inl (TypeError (PropertyOfUndefined ''token'')), w)
      | Some n \<Rightarrow>
          (case link n provider (socialID prof) w of
             (None, w1) \<Rightarrow> (Inl (TypeError (PropertyOfUndefined ''token'')), w1)
           | (Some user, w1) \<Rightarrow> withToken cfg x user w1))"

definition socialLogin :: "config \<Rightarrow> io \<Rightarrow> meta \<Rightarrow> string \<Rightarrow> profile \<Rightarrow> world
    \<Rightarrow> (error + (string \<times> jsval) list) \<times> world" where
  "socialLogin cfg x m provider prof w =
     (let query = (\<lambda>a. map_of (socialLinks a) provider = Some (socialID prof)) in
      if meta_user m \<noteq> None then
        (case findOne query w of
           Some user \<Rightarrow>
             if Some (acc_id user) \<noteq> userID m
               then (Inl (MoleculerClientError 400 ERR_SOCIAL_ACCOUNT_MISMATCH), w)
             else withToken cfg x user w
         | None \<Rightarrow> link_withToken cfg x (userID m) provider prof w)
      else if \<not> truthy (p_email prof)
        then (Inl (MoleculerClientError 400 ERR_NO_SOCIAL_EMAIL), w)
      else
        (case findOne query w of
           Some user \<Rightarrow>
             if status user \<noteq> 1 then (Inl (MoleculerClientError 400 ACCOUNT_DISABLED), w)
             else withToken cfg x user w
         | None \<Rightarrow>
             (case getUserByEmail (str (p_email prof)) w of
                Some user \<Rightarrow>
                  if status user \<noteq> 1 then (Inl (MoleculerClientError 400 ACCOUNT_DISABLED), w)
                  else link_withToken cfg x (Some (acc_id user)) provider prof w
              | None \<Rightarrow>
                  if \<not> accounts_signup_enabled cfg
                    then (Inl (MoleculerClientError 400 ERR_SIGNUP_DISABLED), w)
                  else
                    (case register cfg x
                            \<lparr>r_username = Some (social_username prof),
                             r_password = Some (''$2b$10$'' @ genSalt x),
                             r_email = str (p_email prof),
                             r_firstName = p_firstName prof, r_lastName = p_lastName prof,
                             r_avatar = p_avatar prof\<rparr> w of
                       (Inl err, w1) \<Rightarrow> (Inl err, w1)
                     | (Inr user, w1) \<Rightarrow> link_withToken cfg x (dto_id user) provider prof w1))))"

text \<open>The enrollment address \<open>speakeasy.otpauthURL\<close> builds, kept symbolic.\<close>

record otpauth =
  otp_secret :: string
  otp_label :: string
  otp_issuer :: string

text \<open>What \<open>enable2Fa\<close> returns in the source: the enrollment data, or \<open>true\<close> (\<open>Enabled\<close>)
  after the update that follows the verification.\<close>

datatype enable2fa_result = Enrollment string otpauth | Enabled

text \<open>
  \<open>enable2Fa\<close>: without a code and without enabled 2FA it stores a fresh secret and
  returns the enrollment data. Otherwise it reads \<open>user.totp.secret\<close> and calls
  \<open>this.verify2FA\<close>; the update that would set \<open>totp.enabled\<close> to true comes after that
  call.
\<close>

definition enable2Fa :: "config \<Rightarrow> io \<Rightarrow> meta \<Rightarrow> string option \<Rightarrow> world
    \<Rightarrow> (error + enable2fa_result) \<times> world" where
  "enable2Fa cfg x m token w =
     (case findById (userID m) w of
        None \<Rightarrow> (Inl (MoleculerClientError 400 USER_NOT_FOUND), w)
      | Some user \<Rightarrow>
          if \<not> truthy token \<and> \<not> totp_enabled user then
            (let w1 = snd (updateById (acc_id user)
                        (\<lambda>a. set_totp_secret (Some (secret_base32 x)) (set_totp_enabled False a)) w)
             in case meta_user m of
                  None \<Rightarrow> (Inl (TypeError (PropertyOfUndefined ''email'')), w1)
                | Some label \<Rightarrow>
                    (Inr (Enrollment (secret_base32 x)
                            \<lparr>otp_secret = secret_ascii x, otp_label = label,
                             otp_issuer = site_name cfg\<rparr>), w1))
          else
            (case totp user of
               None \<Rightarrow> (Inl (TypeError (PropertyOfUndefined ''secret'')), w)
             | Some t \<Rightarrow> (Inl (TypeError (NotAFunction ''verify2FA'')), w)))"

text \<open>\<open>disable2Fa\<close>: with 2FA enabled it reads the secret and calls \<open>this.verify2FA\<close>.\<close>

definition disable2Fa :: "meta \<Rightarrow> string \<Rightarrow> world \<Rightarrow> (error + bool) \<times> world" where
  "disable2Fa m token w =
     (case findById (userID m) w of
        None \<Rightarrow> (Inl (MoleculerClientError 400 USER_NOT_FOUND), w)
      | Some user \<Rightarrow>
          if \<not> totp_enabled user
            then (Inl (MoleculerClientError 400 TWOFACTOR_NOT_ENABLED), w)
          else (Inl (TypeError (NotAFunction ''verify2FA'')), w))"

subsection \<open>The service as a transition system\<close>

text \<open>
  One call of any state-changing action, with its parameters. \<open>perform\<close> gives the
  world after the call, whatever its outcome; \<open>disable\<close> and \<open>enable\<close> run on the entity
  with the given identifier when there is one.
\<close>

datatype action =
    Register io register_params
  | Verify io string
  | Disable nat
  | Enable nat
  | Passwordless io string
  | ForgotPassword io string
  | ResetPassword io string string
  | Link nat string profile
  | Unlink meta "nat option" string
  | Login io string "string option" "string option"
  | SocialLogin io meta string profile
  | Enable2Fa io meta "string option"
  | Disable2Fa meta string

fun perform :: "config \<Rightarrow> action \<Rightarrow> world \<Rightarrow> world" where
  "perform cfg (Register x p) w = snd (register cfg x p w)"
| "perform cfg (Verify x token) w = snd (verify cfg x token w)"
| "perform cfg (Disable i) w =
     (case findById (Some i) w of None \<Rightarrow> w | Some user \<Rightarrow> snd (disable user w))"
| "perform cfg (Enable i) w =
     (case findById (Some i) w of None \<Rightarrow> w | Some user \<Rightarrow> snd (enable user w))"
| "perform cfg (Passwordless x token) w = snd (passwordless_action cfg x token w)"
| "perform cfg (ForgotPassword x e) w = snd (forgotpassword cfg x e w)"
| "perform cfg (ResetPassword x token pw) w = snd (resetpassword cfg x token pw w)"
| "perform cfg (Link i provider prof) w = snd (link_action i provider prof w)"
| "perform cfg (Unlink m i provider) w = snd (unlink_action m i provider w)"
| "perform cfg (Login x e pw token) w = snd (login cfg x e pw token w)"
| "perform cfg (SocialLogin x m provider prof) w = snd (socialLogin cfg x m provider prof w)"
| "perform cfg (Enable2Fa x m token) w = snd (enable2Fa cfg x m token w)"
| "perform cfg (Disable2Fa m token) w = snd (disable2Fa m token w)"

text \<open>
  The credential state of a document: the \<open>password\<close> field is set, and it holds a
  bcrypt hash exactly when the account is not passwordless.
\<close>

definition credential_ok :: "account \<Rightarrow> bool" where
  "credential_ok a = (password a \<noteq> None \<and> passwordless a = (\<not> is_hash (password a)))"

subsection \<open>Sample data\<close>

text \<open>A configuration, outside inputs and documents on which the theorems are run.\<close>

definition sample_cfg :: config where
  "sample_cfg =
     \<lparr>accounts_signup_enabled = True, accounts_username_enabled = False,
      accounts_passwordless_enabled = True, accounts_verification_enabled = False,
      accounts_defaultRoles = [''user''], accounts_defaultPlan = ''free'',
      accounts_jwt_expiresIn = Some 3600, mail_enabled = True,
      site_name = ''site'', site_url = ''http://localhost'',
      JWT_SECRET = Some ''secret'',
      ACCOUNTS_RESET_TOKEN_EXPIRES = Some 3600000,
      ACCOUNTS_PASSWORDLESS_TOKEN_EXPIRES = Some 3600000\<rparr>"

definition sample_io :: io where
  "sample_io =
     \<lparr>now = 5000, token1 = ''t1'', token2 = ''t2'', salt = ''s1'',
      secret_base32 = ''B32'', secret_ascii = ''asc'', genSalt = ''g1'',
      mail_delivers = True\<rparr>"

definition alice :: account where
  "alice =
     \<lparr>acc_id = 1, username = None, email = ''a@x.com'', firstName = ''Alice'',
      lastName = ''Doe'', password = Some (Bcrypt ''s0'' ''longenough1''),
      avatar = Gravatar ''a@x.com'', roles = [''user''], plan = ''free'',
      socialLinks = [], status = 1, verified = True, verificationToken = None,
      passwordless = False, passwordlessToken = None,
      passwordlessTokenExpires = JUndefined, resetToken = None,
      resetTokenExpires = JUndefined, totp = None, createdAt = 0\<rparr>"

text \<open>The same account, not yet verified, holding the magic-link token \<open>magic\<close>.\<close>

definition alice_magic :: account where
  "alice_magic =
     alice\<lparr>verified := False, passwordlessToken := Some ''magic'',
           passwordlessTokenExpires := JNum 9000\<rparr>"


text \<open>The registration of the spec's example scenario.\<close>

definition sample_registration :: register_params where
  "sample_registration =
     \<lparr>r_username = None, r_password = Some ''longenough1'', r_email = ''a@x.com'',
      r_firstName = ''Alice'', r_lastName = ''Doe'', r_avatar = None\<rparr>"

definition alice_meta :: meta where
  "alice_meta = \<lparr>userID = Some 1, meta_user = Some ''a@x.com''\<rparr>"

section \<open>Properties\<close>

subsection \<open>The collection\<close>

text \<open>When identifiers are distinct, \<open>updateById\<close> is a map over the collection.\<close>

lemma update_first_map:
  "distinct (map acc_id as) \<Longrightarrow>
   update_first i f as = map (\<lambda>a. if acc_id a = i then f a else a) as"
proof (induction as)
  case Nil
  then show ?case by simp
next
  case (Cons a as)
  show ?case
  proof (cases "acc_id a = i")
    case True
    with Cons.prems have "\<forall>b\<in>set as. acc_id b \<noteq> i" by (auto simp: image_iff)
    then have "map (\<lambda>a. if acc_id a = i then f a else a) as = as"
      by (simp add: map_idI)
    with True show ?thesis by simp
  next
    case False
    with Cons show ?thesis by simp
  qed
qed

lemma find_id_update_first:
  "(\<And>a. acc_id (f a) = acc_id a) \<Longrightarrow>
   find (\<lambda>a. acc_id a = i) (update_first i f as) = map_option f (find (\<lambda>a. acc_id a = i) as)"
  by (induction as) auto

subsection \<open>Session tokens\<close>

text \<open>With a signing key and a configured lifetime, \<open>getToken\<close> returns this token.\<close>

lemma getToken_Signed:
  "JWT_SECRET cfg = Some key \<Longrightarrow> key \<noteq> [] \<Longrightarrow> accounts_jwt_expiresIn cfg = Some ttl \<Longrightarrow>
   getToken cfg x user =
     Inr (Signed key \<lparr>claim_id = Some (acc_id user), iat = now x div 1000,
                       exp = now x div 1000 + ttl\<rparr>)"
  by (simp add: getToken_def generateJWT_def)

text \<open>
  C8. For every account id \<open>i\<close>: with a signing key and a lifetime \<open>ttl\<close> (seconds)
  configured, \<open>generateJWT\<close> at time \<open>t\<close> returns a token; \<open>verifyJWT\<close> accepts that
  token at every time before its expiry \<open>t div 1000 + ttl\<close> and yields the id \<open>i\<close>;
  from the expiry on it rejects the token with \<open>INVALID_TOKEN\<close>.
\<close>

theorem generateJWT_verifyJWT:
  assumes "JWT_SECRET cfg = Some key" and "key \<noteq> []"
    and "jwtExpiresIn cfg expiresIn = Some ttl"
  shows "\<exists>token. generateJWT cfg t (Some i) expiresIn = Inr token
           \<and> (\<forall>t'. t' div 1000 < t div 1000 + ttl \<longrightarrow>
                 (\<exists>d. verifyJWT cfg t' token = Inr d \<and> claim_id d = Some i))
           \<and> (\<forall>t'. t div 1000 + ttl \<le> t' div 1000 \<longrightarrow>
                 verifyJWT cfg t' token = Inl (MoleculerClientError 401 INVALID_TOKEN))"
  using assms by (simp add: generateJWT_def verifyJWT_def)

theorem generateJWT_verifyJWT_witness:
  "JWT_SECRET sample_cfg = Some ''secret'' \<and> jwtExpiresIn sample_cfg None = Some 3600
   \<and> (\<exists>token. generateJWT sample_cfg 5000 (Some 7) None = Inr token
         \<and> (\<exists>d. verifyJWT sample_cfg 6000 token = Inr d \<and> claim_id d = Some 7)
         \<and> verifyJWT sample_cfg 3605000 token = Inl (MoleculerClientError 401 INVALID_TOKEN))"
proof -
  have h1: "JWT_SECRET sample_cfg = Some ''secret''" by (simp add: sample_cfg_def)
  have h2: "''secret'' \<noteq> []" by simp
  have h3: "jwtExpiresIn sample_cfg None = Some 3600" by (simp add: sample_cfg_def)
  from generateJWT_verifyJWT [OF h1 h2 h3, of 5000 7] obtain token where
    g: "generateJWT sample_cfg 5000 (Some 7) None = Inr token"
    and ok: "\<forall>t'. t' div 1000 < 5000 div 1000 + 3600 \<longrightarrow>
               (\<exists>d. verifyJWT sample_cfg t' token = Inr d \<and> claim_id d = Some 7)"
    and late: "\<forall>t'. 5000 div 1000 + 3600 \<le> t' div 1000 \<longrightarrow>
               verifyJWT sample_cfg t' token = Inl (MoleculerClientError 401 INVALID_TOKEN)"
    by blast
  from ok have "\<exists>d. verifyJWT sample_cfg 6000 token = Inr d \<and> claim_id d = Some 7" by simp
  moreover from late have
    "verifyJWT sample_cfg 3605000 token = Inl (MoleculerClientError 401 INVALID_TOKEN)" by simp
  ultimately show ?thesis using h1 h3 g by blast
qed

subsection \<open>Two-factor authentication\<close>

text \<open>
  C10. \<open>enable2Fa\<close> called with a code reads \<open>user.totp.secret\<close> without a guard: for
  an account that is found and has no \<open>totp\<close> sub-document, the call ends in the
  \<open>TypeError\<close> of reading the property \<open>secret\<close> of \<open>undefined\<close>, with the collection
  untouched.
\<close>

theorem enable2Fa_unguarded_totp:
  assumes "findById (userID m) w = Some user" and "truthy token" and "totp user = None"
  shows "enable2Fa cfg x m token w = (Inl (TypeError (PropertyOfUndefined ''secret'')), w)"
  using assms by (simp add: enable2Fa_def)

theorem enable2Fa_unguarded_totp_witness:
  "findById (userID alice_meta) \<lparr>accounts = [alice], outbox = []\<rparr> = Some alice
   \<and> truthy (Some ''123456'') \<and> totp alice = None
   \<and> enable2Fa sample_cfg sample_io alice_meta (Some ''123456'')
         \<lparr>accounts = [alice], outbox = []\<rparr>
       = (Inl (TypeError (PropertyOfUndefined ''secret'')), \<lparr>accounts = [alice], outbox = []\<rparr>)"
proof -
  have h1: "findById (userID alice_meta) \<lparr>accounts = [alice], outbox = []\<rparr> = Some alice"
    by (simp add: findById_def alice_meta_def alice_def)
  have h2: "truthy (Some ''123456'')" by simp
  have h3: "totp alice = None" by (simp add: alice_def)
  from enable2Fa_unguarded_totp [OF h1 h2 h3, of sample_cfg sample_io] h1 h2 h3
  show ?thesis by simp
qed

subsection \<open>Magic links\<close>

text \<open>
  C9. For every account with \<open>totp.enabled = true\<close> that holds a passwordless token
  which is found and unexpired (the feature on, the account enabled, signing
  configured), \<open>passwordless\<close> returns the session token for the account. The handler
  has no 2FA code among its parameters and never reads \<open>user.totp\<close>: the TOTP check
  of \<open>login\<close> is absent from this path.
\<close>

theorem passwordless_action_no_2fa:
  assumes "accounts_passwordless_enabled cfg"
    and "findOne (\<lambda>a. passwordlessToken a = Some token) w = Some user"
    and "status user = 1"
    and "\<not> js_lt (passwordlessTokenExpires user) (now x)"
    and "totp_enabled user"
    and "JWT_SECRET cfg = Some key" and "key \<noteq> []"
    and "accounts_jwt_expiresIn cfg = Some ttl"
  shows "fst (passwordless_action cfg x token w) =
           Inr (Signed key \<lparr>claim_id = Some (acc_id user), iat = now x div 1000,
                             exp = now x div 1000 + ttl\<rparr>)"
  using assms by (simp add: passwordless_action_def Let_def getToken_Signed)

theorem passwordless_action_no_2fa_witness:
  "(let u = alice\<lparr>passwordlessToken := Some ''magic'', passwordlessTokenExpires := JNum 9000,
                    totp := Some \<lparr>enabled = True, secret = Some ''B32''\<rparr>\<rparr>;
        w = \<lparr>accounts = [u], outbox = []\<rparr>
    in accounts_passwordless_enabled sample_cfg
       \<and> findOne (\<lambda>a. passwordlessToken a = Some ''magic'') w = Some u
       \<and> status u = 1 \<and> \<not> js_lt (passwordlessTokenExpires u) (now sample_io)
       \<and> totp_enabled u
       \<and> fst (passwordless_action sample_cfg sample_io ''magic'' w) =
           Inr (Signed ''secret'' \<lparr>claim_id = Some 1, iat = 5, exp = 3605\<rparr>))"
proof -
  define u where "u = alice\<lparr>passwordlessToken := Some ''magic'', passwordlessTokenExpires := JNum 9000,
                    totp := Some \<lparr>enabled = True, secret = Some ''B32''\<rparr>\<rparr>"
  define w where "w = \<lparr>accounts = [u], outbox = []\<rparr>"
  have h1: "accounts_passwordless_enabled sample_cfg" by (simp add: sample_cfg_def)
  have h2: "findOne (\<lambda>a. passwordlessToken a = Some ''magic'') w = Some u"
    by (simp add: findOne_def w_def u_def)
  have h3: "status u = 1" by (simp add: u_def alice_def)
  have h4: "\<not> js_lt (passwordlessTokenExpires u) (now sample_io)"
    by (simp add: u_def sample_io_def)
  have h5: "totp_enabled u" by (simp add: u_def totp_enabled_def)
  have h6: "JWT_SECRET sample_cfg = Some ''secret''" by (simp add: sample_cfg_def)
  have h7: "''secret'' \<noteq> []" by simp
  have h8: "accounts_jwt_expiresIn sample_cfg = Some 3600" by (simp add: sample_cfg_def)
  have "fst (passwordless_action sample_cfg sample_io ''magic'' w) =
           Inr (Signed ''secret'' \<lparr>claim_id = Some (acc_id u), iat = now sample_io div 1000,
                             exp = now sample_io div 1000 + 3600\<rparr>)"
    by (rule passwordless_action_no_2fa [OF h1 h2 h3 h4 h5 h6 h7 h8])
  moreover have "acc_id u = 1" "now sample_io div 1000 = 5"
    by (simp_all add: u_def alice_def sample_io_def)
  ultimately show ?thesis using h1 h2 h3 h4 h5 by (simp add: Let_def u_def [symmetric] w_def [symmetric])
qed

subsection \<open>More on the collection\<close>

lemma find_acc_id:
  "distinct (map acc_id as) \<Longrightarrow> a \<in> set as \<Longrightarrow> find (\<lambda>b. acc_id b = acc_id a) as = Some a"
  by (induction as) (auto simp: image_iff)

lemma findOne_SomeD:
  "findOne q w = Some u \<Longrightarrow> u \<in> set (accounts w) \<and> q u"
  by (auto simp: findOne_def find_Some_iff)

lemma findById_SomeD:
  "findById i w = Some u \<Longrightarrow> u \<in> set (accounts w) \<and> i = Some (acc_id u)"
  by (auto simp: findById_def find_Some_iff split: option.splits)

lemma updateById_found:
  assumes "distinct (map acc_id (accounts w))" and "u \<in> set (accounts w)"
    and "\<And>a. acc_id (f a) = acc_id a"
  shows "updateById (acc_id u) f w =
           (Some (f u),
            w\<lparr>accounts := map (\<lambda>a. if acc_id a = acc_id u then f a else a) (accounts w)\<rparr>)"
proof -
  have "find (\<lambda>a. acc_id a = acc_id u) (update_first (acc_id u) f (accounts w)) = Some (f u)"
    using assms by (simp add: find_id_update_first find_acc_id)
  moreover have "update_first (acc_id u) f (accounts w) =
      map (\<lambda>a. if acc_id a = acc_id u then f a else a) (accounts w)"
    using assms(1) by (rule update_first_map)
  ultimately show ?thesis by (simp add: updateById_def Let_def)
qed

lemma map_update_first:
  "(\<And>a. g (f a) = g a) \<Longrightarrow> map g (update_first i f as) = map g as"
  by (induction as) auto

subsection \<open>Password login\<close>

text \<open>
  C5. For every account that the login query resolves to and that is verified,
  enabled, not passwordless and without 2FA enabled, and every supplied (truthy)
  password: when \<open>bcrypt.compare\<close> accepts the password, \<open>login\<close> returns a session token
  that \<open>verifyJWT\<close> accepts and that carries the account's id (signing configured with
  a positive lifetime); when \<open>bcrypt.compare\<close> rejects it, \<open>login\<close> fails with the
  client error whose code the source spells \<open>ERR_WRONG_PASSWORD\<close>, and the world is
  unchanged, so no token of any kind is issued.
\<close>

theorem login_password:
  assumes "findOne (login_query cfg e) w = Some user"
    and "verified user" and "status user = 1" and "\<not> passwordless user"
    and "\<not> totp_enabled user" and "truthy pw"
    and "JWT_SECRET cfg = Some key" and "key \<noteq> []"
    and "accounts_jwt_expiresIn cfg = Some ttl" and "0 < ttl"
  shows "(bcrypt_compare (str pw) (password user) = Inr True \<longrightarrow>
           (\<exists>tok d. login cfg x e pw code w = (Inr (SessionToken tok), w)
              \<and> verifyJWT cfg (now x) tok = Inr d \<and> claim_id d = Some (acc_id user)))
       \<and> (bcrypt_compare (str pw) (password user) = Inr False \<longrightarrow>
           login cfg x e pw code w =
             (Inl (MoleculerClientError 400 ERR_WRONG_PASSWORD), w))"
  using assms
  by (simp add: login_def login_2fa_def getToken_Signed verifyJWT_def)

theorem login_password_witness:
  "findOne (login_query sample_cfg ''a@x.com'') \<lparr>accounts = [alice], outbox = []\<rparr> = Some alice
   \<and> verified alice \<and> status alice = 1 \<and> \<not> passwordless alice \<and> \<not> totp_enabled alice
   \<and> bcrypt_compare ''longenough1'' (password alice) = Inr True
   \<and> bcrypt_compare ''letmein'' (password alice) = Inr False
   \<and> (\<exists>tok d. login sample_cfg sample_io ''a@x.com'' (Some ''longenough1'') None
                 \<lparr>accounts = [alice], outbox = []\<rparr>
               = (Inr (SessionToken tok), \<lparr>accounts = [alice], outbox = []\<rparr>)
         \<and> verifyJWT sample_cfg (now sample_io) tok = Inr d \<and> claim_id d = Some 1)
   \<and> login sample_cfg sample_io ''a@x.com'' (Some ''letmein'') None
         \<lparr>accounts = [alice], outbox = []\<rparr>
       = (Inl (MoleculerClientError 400 ERR_WRONG_PASSWORD), \<lparr>accounts = [alice], outbox = []\<rparr>)"
proof -
  let ?w = "\<lparr>accounts = [alice], outbox = []\<rparr>"
  have h1: "findOne (login_query sample_cfg ''a@x.com'') ?w = Some alice"
    by (simp add: findOne_def login_query_def sample_cfg_def alice_def)
  have h2: "verified alice" and h3: "status alice = 1" and h4: "\<not> passwordless alice"
    and h5: "\<not> totp_enabled alice"
    by (simp_all add: alice_def totp_enabled_def)
  have h6: "truthy (Some ''longenough1'')" and h6': "truthy (Some ''letmein'')" by simp_all
  have h7: "JWT_SECRET sample_cfg = Some ''secret''" and h8: "''secret'' \<noteq> []"
    and h9: "accounts_jwt_expiresIn sample_cfg = Some 3600" and h10: "(0::int) < 3600"
    by (simp_all add: sample_cfg_def)
  have good: "bcrypt_compare ''longenough1'' (password alice) = Inr True"
    and bad: "bcrypt_compare ''letmein'' (password alice) = Inr False"
    by (simp_all add: alice_def)
  have id1: "acc_id alice = 1" by (simp add: alice_def)
  from login_password [OF h1 h2 h3 h4 h5 h6 h7 h8 h9 h10, of sample_io None] good
  have a: "\<exists>tok d. login sample_cfg sample_io ''a@x.com'' (Some ''longenough1'') None ?w
               = (Inr (SessionToken tok), ?w)
         \<and> verifyJWT sample_cfg (now sample_io) tok = Inr d \<and> claim_id d = Some 1"
    by (simp add: id1)
  from login_password [OF h1 h2 h3 h4 h5 h6' h7 h8 h9 h10, of sample_io None] bad
  have b: "login sample_cfg sample_io ''a@x.com'' (Some ''letmein'') None ?w
       = (Inl (MoleculerClientError 400 ERR_WRONG_PASSWORD), ?w)"
    by simp
  from h1 h2 h3 h4 h5 good bad a b show ?thesis by blast
qed

subsection \<open>Login without a password\<close>

text \<open>\<open>login\<close> never changes the world and never returns the pending indicator.\<close>

lemma login_keeps_world: "snd (login cfg x e pw code w) = w"
  by (simp add: login_def split: option.splits sum.splits)

lemma session_not_pending: "map_sum id SessionToken r \<noteq> Inr (PasswordlessPending addr)"
  by (cases r) simp_all

lemma login_never_pending: "fst (login cfg x e pw code w) \<noteq> Inr (PasswordlessPending addr)"
  by (simp add: login_def login_2fa_def session_not_pending split: option.splits sum.splits)

text \<open>With mail disabled the branch is refused before the call of \<open>sendMagicLink\<close>.\<close>

lemma login_magic_link_needs_mail:
  assumes "findOne (login_query cfg e) w = Some user"
    and "verified user" and "status user = 1" and "\<not> truthy pw"
    and "accounts_passwordless_enabled cfg" and "\<not> mail_enabled cfg"
  shows "login cfg x e pw code w =
           (Inl (MoleculerClientError 400 ERR_PASSWORDLESS_UNAVAILABLE), w)"
  using assms by (simp add: login_def)

text \<open>With mail enabled the call of \<open>this.sendMagicLink\<close> throws, on every such login.\<close>

lemma login_magic_link_throws:
  assumes "findOne (login_query cfg e) w = Some user"
    and "verified user" and "status user = 1" and "\<not> truthy pw"
    and "accounts_passwordless_enabled cfg" and "mail_enabled cfg"
  shows "login cfg x e pw code w = (Inl (TypeError (NotAFunction ''sendMagicLink'')), w)"
  using assms by (simp add: login_def)

text \<open>
  C7. On the world of one verified, enabled account, with the passwordless feature and
  mail enabled and the mail service accepting messages, \<open>login\<close> without a password
  does not issue a magic link: it ends in the \<open>TypeError\<close> of calling
  \<open>this.sendMagicLink\<close>, stores no token on the account and sends no mail.
\<close>

theorem login_magic_link_not_issued:
  "verified alice \<and> status alice = 1
   \<and> accounts_passwordless_enabled sample_cfg \<and> mail_enabled sample_cfg
   \<and> mail_delivers sample_io
   \<and> login sample_cfg sample_io ''a@x.com'' None None \<lparr>accounts = [alice], outbox = []\<rparr>
       = (Inl (TypeError (NotAFunction ''sendMagicLink'')),
          \<lparr>accounts = [alice], outbox = []\<rparr>)
   \<and> passwordlessToken alice = None"
  by (simp add: login_def findOne_def login_query_def sample_cfg_def sample_io_def alice_def)

subsection \<open>Consuming a magic link\<close>

text \<open>No update of \<open>passwordless\<close> touches the field \<open>passwordlessToken\<close> of any document.\<close>

lemma passwordless_action_keeps_tokens:
  "map passwordlessToken (accounts (snd (passwordless_action cfg x token w)))
     = map passwordlessToken (accounts w)"
  by (simp add: passwordless_action_def updateById_def Let_def map_update_first
           split: option.splits)

text \<open>
  C1. The handler succeeds on a token that is found, enabled and unexpired, marks the
  account verified and returns a session token, but its only update sets \<open>verified\<close>:
  the token stays on the account. On the world of one unverified account holding the
  token \<open>magic\<close>, the first call returns a session token and leaves the token stored;
  a second call with the same token, one second later, returns a session token again.
\<close>

theorem passwordless_action_replay:
  "accounts_passwordless_enabled sample_cfg
   \<and> (\<exists>w1. passwordless_action sample_cfg sample_io ''magic''
               \<lparr>accounts = [alice_magic], outbox = []\<rparr>
             = (Inr (Signed ''secret'' \<lparr>claim_id = Some 1, iat = 5, exp = 3605\<rparr>), w1)
         \<and> map verified (accounts w1) = [True]
         \<and> map passwordlessToken (accounts w1) = [Some ''magic'']
         \<and> passwordless_action sample_cfg (sample_io\<lparr>now := 6000\<rparr>) ''magic'' w1
             = (Inr (Signed ''secret'' \<lparr>claim_id = Some 1, iat = 6, exp = 3606\<rparr>), w1))"
  by (simp add: passwordless_action_def findOne_def updateById_def Let_def getToken_def
        generateJWT_def sample_cfg_def sample_io_def alice_magic_def alice_def)

subsection \<open>Queries after an update\<close>

text \<open>A query that the update does not affect finds the same document, updated.\<close>

lemma find_map_invariant:
  assumes "\<And>a. q (g a) = q a"
  shows "find q (map g as) = map_option g (find q as)"
  using assms by (induction as) auto


lemma accounts_sendMail_async:
  "accounts (sendMail_async cfg x user tmpl tok w) = accounts w"
  by (simp add: sendMail_async_def sendMail_def)

subsection \<open>Password reset\<close>



subsection \<open>Enabling two-factor authentication\<close>

lemma map_acc_id_update:
  "(\<And>a. acc_id (f a) = acc_id a) \<Longrightarrow>
   map acc_id (map (\<lambda>a. if acc_id a = i then f a else a) as) = map acc_id as"
  by (induction as) auto

text \<open>The check in \<open>login\<close> is in place: on an account with 2FA enabled, a password login
  that passes the password check and carries no code is refused.\<close>

lemma login_missing_code:
  assumes "findOne (login_query cfg e) w = Some u"
    and "verified u" and "status u = 1" and "\<not> passwordless u"
    and "truthy pw" and "bcrypt_compare (str pw) (password u) = Inr True"
    and "totp_enabled u" and "\<not> truthy absent"
  shows "login cfg x e pw absent w =
           (Inl (MoleculerClientError 400 ERR_MISSING_2FA_CODE), w)"
  using assms by (simp add: login_def login_2fa_def)

text \<open>The enrollment step: without a code, and with 2FA not enabled, the secret is stored
  with \<open>totp.enabled = false\<close> and returned with the enrollment address.\<close>

lemma enable2Fa_enrollment:
  assumes found: "findById (userID m) w = Some user"
    and authenticated: "meta_user m = Some label"
    and off: "\<not> totp_enabled user"
    and ids: "distinct (map acc_id (accounts w))"
    and absent: "\<not> truthy absent"
  shows "enable2Fa cfg x m absent w =
           (Inr (Enrollment (secret_base32 x)
                   \<lparr>otp_secret = secret_ascii x, otp_label = label,
                    otp_issuer = site_name cfg\<rparr>),
            w\<lparr>accounts :=
                 map (\<lambda>a. if acc_id a = acc_id user
                           then a\<lparr>totp := Some \<lparr>enabled = False,
                                                  secret = Some (secret_base32 x)\<rparr>\<rparr>
                           else a) (accounts w)\<rparr>)"
proof -
  let ?f = "\<lambda>a. set_totp_secret (Some (secret_base32 x)) (set_totp_enabled False a)"
  from found have mem: "user \<in> set (accounts w)" by (simp add: findById_SomeD)
  have f: "\<And>a. ?f a = a\<lparr>totp := Some \<lparr>enabled = False, secret = Some (secret_base32 x)\<rparr>\<rparr>"
    by (simp add: set_totp_secret_def set_totp_enabled_def split: option.splits)
  have "updateById (acc_id user) ?f w =
      (Some (?f user),
       w\<lparr>accounts := map (\<lambda>a. if acc_id a = acc_id user then ?f a else a) (accounts w)\<rparr>)"
    using ids mem
    by (rule updateById_found) (simp add: set_totp_secret_def set_totp_enabled_def)
  then show ?thesis
    using found authenticated off absent by (simp add: enable2Fa_def f)
qed

text \<open>The confirmation step: with a code, whatever the code, the call throws and the
  collection is untouched, so \<open>totp.enabled\<close> stays as it was.\<close>

lemma enable2Fa_with_code_throws:
  assumes "findById (userID m) w = Some user" and "truthy code"
  shows "enable2Fa cfg x m code w =
           (Inl (TypeError (case totp user of None \<Rightarrow> PropertyOfUndefined ''secret''
                            | Some t \<Rightarrow> NotAFunction ''verify2FA'')), w)"
  using assms by (simp add: enable2Fa_def split: option.splits)

text \<open>
  C4. On the world of one authenticated account without 2FA: \<open>enable2Fa\<close> without a
  code stores the secret with \<open>totp.enabled = false\<close> and returns the secret and the
  enrollment address. The following \<open>enable2Fa\<close> with a code ends in the \<open>TypeError\<close> of
  calling \<open>this.verify2FA\<close> and leaves \<open>totp.enabled = false\<close>. A login with the right
  password and no code then returns a session token.
\<close>

theorem enable2Fa_never_enables:
  "findById (userID alice_meta) \<lparr>accounts = [alice], outbox = []\<rparr> = Some alice
   \<and> meta_user alice_meta = Some ''a@x.com'' \<and> \<not> totp_enabled alice
   \<and> enable2Fa sample_cfg sample_io alice_meta None \<lparr>accounts = [alice], outbox = []\<rparr>
       = (Inr (Enrollment ''B32''
                 \<lparr>otp_secret = ''asc'', otp_label = ''a@x.com'', otp_issuer = ''site''\<rparr>),
          \<lparr>accounts = [alice\<lparr>totp := Some \<lparr>enabled = False, secret = Some ''B32''\<rparr>\<rparr>],
           outbox = []\<rparr>)
   \<and> enable2Fa sample_cfg sample_io alice_meta (Some ''123456'')
         \<lparr>accounts = [alice\<lparr>totp := Some \<lparr>enabled = False, secret = Some ''B32''\<rparr>\<rparr>],
          outbox = []\<rparr>
       = (Inl (TypeError (NotAFunction ''verify2FA'')),
          \<lparr>accounts = [alice\<lparr>totp := Some \<lparr>enabled = False, secret = Some ''B32''\<rparr>\<rparr>],
           outbox = []\<rparr>)
   \<and> login sample_cfg sample_io ''a@x.com'' (Some ''longenough1'') None
         \<lparr>accounts = [alice\<lparr>totp := Some \<lparr>enabled = False, secret = Some ''B32''\<rparr>\<rparr>],
          outbox = []\<rparr>
       = (Inr (SessionToken (Signed ''secret'' \<lparr>claim_id = Some 1, iat = 5, exp = 3605\<rparr>)),
          \<lparr>accounts = [alice\<lparr>totp := Some \<lparr>enabled = False, secret = Some ''B32''\<rparr>\<rparr>],
           outbox = []\<rparr>)"
  by (simp add: enable2Fa_def findById_def updateById_def Let_def set_totp_secret_def
        set_totp_enabled_def totp_enabled_def login_def login_2fa_def findOne_def
        login_query_def getToken_def generateJWT_def
        alice_meta_def alice_def sample_cfg_def sample_io_def)

subsection \<open>Registration\<close>

lemma map_of_column:
  "map_of (column k' v f) k = (if k = k' then map_option f v else None)"
  by (cases v) simp_all

lemma doc_of_columns:
  "map_of (doc_of tok a) ''_id'' = Some (VId (acc_id a))"
  "map_of (doc_of tok a) ''username'' = map_option VStr (username a)"
  "map_of (doc_of tok a) ''firstName'' = Some (VStr (firstName a))"
  "map_of (doc_of tok a) ''lastName'' = Some (VStr (lastName a))"
  "map_of (doc_of tok a) ''email'' = Some (VStr (email a))"
  "map_of (doc_of tok a) ''avatar'' = Some (VAvatar (avatar a))"
  "map_of (doc_of tok a) ''roles'' = Some (VStrs (roles a))"
  "map_of (doc_of tok a) ''socialLinks'' = Some (VObj (socialLinks a))"
  "map_of (doc_of tok a) ''status'' = Some (VNum (status a))"
  "map_of (doc_of tok a) ''plan'' = Some (VStr (plan a))"
  "map_of (doc_of tok a) ''verified'' = Some (VBool (verified a))"
  "map_of (doc_of tok a) ''token'' = map_option VToken tok"
  "map_of (doc_of tok a) ''totp.enabled'' = map_option VBool (map_option enabled (totp a))"
  "map_of (doc_of tok a) ''passwordless'' = Some (VBool (passwordless a))"
  "map_of (doc_of tok a) ''createdAt'' = Some (VNum (createdAt a))"
  "map_of (doc_of tok a) ''updatedAt'' = None"
  "map_of (doc_of tok a) ''lastLoginAt'' = None"
  by (simp_all add: doc_of_def map_add_def map_of_column split: option.split)

text \<open>The transformed document, field by field.\<close>

lemma transformDocuments_eq:
  "transformDocuments tok a =
     [(''id'', VId (acc_id a))] @ column ''username'' (username a) VStr
     @ [(''firstName'', VStr (firstName a)), (''lastName'', VStr (lastName a)),
        (''email'', VStr (email a)), (''avatar'', VAvatar (avatar a)),
        (''roles'', VStrs (roles a)), (''socialLinks'', VObj (socialLinks a)),
        (''status'', VNum (status a)), (''plan'', VStr (plan a)),
        (''verified'', VBool (verified a))]
     @ column ''token'' tok VToken
     @ column ''totp.enabled'' (map_option enabled (totp a)) VBool
     @ [(''passwordless'', VBool (passwordless a)), (''createdAt'', VNum (createdAt a))]"
  by (cases "username a"; cases tok; cases "totp a";
      simp add: transformDocuments_def settings_fields_def doc_of_columns map_filter_simps)

lemma transformDocuments_shows:
  "map_of (transformDocuments tok a) ''verified'' = Some (VBool (verified a))"
  "map_of (transformDocuments tok a) ''passwordless'' = Some (VBool (passwordless a))"
  "map_of (transformDocuments tok a) ''email'' = Some (VStr (email a))"
  "map_of (transformDocuments tok a) ''id'' = Some (VId (acc_id a))"
  "map_of (transformDocuments tok a) ''token'' = map_option VToken tok"
  by (simp_all add: transformDocuments_eq map_add_def map_of_column split: option.split)

lemma transformDocuments_hides_password:
  "''password'' \<notin> fst ` set (transformDocuments tok a)"
  "(k, VPassword p) \<notin> set (transformDocuments tok a)"
  by (cases "username a"; cases tok; cases "totp a"; simp add: transformDocuments_eq)+

lemma acc_id_le_foldr_max:
  "a \<in> set as \<Longrightarrow> acc_id a \<le> foldr max (map acc_id as) 0"
  by (induction as) (auto simp: max_def)

lemma fresh_id_notin:
  "fresh_id as \<notin> acc_id ` set as"
proof
  assume "fresh_id as \<in> acc_id ` set as"
  then obtain a where "a \<in> set as" and "acc_id a = fresh_id as" by auto
  with acc_id_le_foldr_max [of a as] show False by (simp add: fresh_id_def)
qed

text \<open>
  C6. With signup enabled and the verification feature disabled, \<open>register\<close> with an
  e-mail no account has and a supplied (truthy) password (and, when the username
  feature is on, a supplied username no account has) appends one account with a fresh
  identifier, \<open>verified = true\<close>, \<open>passwordless = false\<close> and the bcrypt hash of the
  password. With signing configured the result carries the session token of the new
  account and shows \<open>verified\<close> and \<open>passwordless\<close>; it has no field \<open>password\<close> and no
  value that is a stored password. This holds whether or not the passwordless feature
  is enabled.
\<close>

theorem register_with_password:
  assumes signup: "accounts_signup_enabled cfg"
    and noverify: "\<not> accounts_verification_enabled cfg"
    and fresh: "getUserByEmail (r_email p) w = None"
    and uname: "accounts_username_enabled cfg \<longrightarrow>
                  truthy (r_username p) \<and> getUserByUsername (str (r_username p)) w = None"
    and pw: "truthy (r_password p)"
    and key: "JWT_SECRET cfg = Some key" "key \<noteq> []"
    and ttl: "accounts_jwt_expiresIn cfg = Some ttl"
  shows "\<exists>dto w1 a.
           register cfg x p w = (Inr dto, w1)
         \<and> accounts w1 = accounts w @ [a]
         \<and> acc_id a = fresh_id (accounts w)
         \<and> acc_id a \<notin> acc_id ` set (accounts w)
         \<and> email a = r_email p \<and> verified a \<and> \<not> passwordless a
         \<and> password a = Some (bcrypt_hash (str (r_password p)) (salt x))
         \<and> map_of dto ''token'' =
               Some (VToken (Signed key \<lparr>claim_id = Some (acc_id a), iat = now x div 1000,
                                          exp = now x div 1000 + ttl\<rparr>))
         \<and> map_of dto ''id'' = Some (VId (acc_id a))
         \<and> map_of dto ''email'' = Some (VStr (r_email p))
         \<and> map_of dto ''verified'' = Some (VBool True)
         \<and> map_of dto ''passwordless'' = Some (VBool False)
         \<and> ''password'' \<notin> fst ` set dto
         \<and> (\<forall>k h. (k, VPassword h) \<notin> set dto)"
proof -
  obtain un where un: "register_username cfg p w = Inr un"
    using uname by (cases "accounts_username_enabled cfg") (simp_all add: register_username_def)
  have rp: "register_password cfg x p = Inr (False, bcrypt_hash (str (r_password p)) (salt x))"
    using pw by (simp add: register_password_def)
  let ?a = "\<lparr>acc_id = fresh_id (accounts w), username = un, email = r_email p,
             firstName = r_firstName p, lastName = r_lastName p,
             password = Some (bcrypt_hash (str (r_password p)) (salt x)),
             avatar = (if truthy (r_avatar p) then Url (str (r_avatar p))
                       else Gravatar (r_email p)),
             roles = accounts_defaultRoles cfg, plan = accounts_defaultPlan cfg,
             socialLinks = [], status = 1, verified = True, verificationToken = None,
             passwordless = False, passwordlessToken = None,
             passwordlessTokenExpires = JUndefined, resetToken = None,
             resetTokenExpires = JUndefined, totp = None, createdAt = now x\<rparr>"
  let ?tok = "Signed key \<lparr>claim_id = Some (acc_id ?a), iat = now x div 1000,
                            exp = now x div 1000 + ttl\<rparr>"
  let ?w1 = "sendMail_async cfg x ?a ''welcome'' None (w\<lparr>accounts := accounts w @ [?a]\<rparr>)"
  have tk: "getToken cfg x ?a = Inr ?tok" using key ttl by (rule getToken_Signed)
  have reg: "register cfg x p w = (Inr (transformDocuments (Some ?tok) ?a), ?w1)"
    using signup noverify fresh
    by (simp add: register_def un rp insert_doc_def Let_def withToken_def tk)
  have acc: "accounts ?w1 = accounts w @ [?a]" by (simp add: accounts_sendMail_async)
  have new: "acc_id ?a \<notin> acc_id ` set (accounts w)" using fresh_id_notin by simp
  show ?thesis
    apply (rule exI [of _ "transformDocuments (Some ?tok) ?a"])
    apply (rule exI [of _ ?w1])
    apply (rule exI [of _ ?a])
    apply (intro conjI allI)
    subgoal by (rule reg)
    subgoal by (rule acc)
    subgoal by simp
    subgoal by (rule new)
    subgoal by simp
    subgoal by simp
    subgoal by simp
    subgoal by simp
    subgoal by (simp add: transformDocuments_shows)
    subgoal by (simp add: transformDocuments_shows)
    subgoal by (simp add: transformDocuments_shows)
    subgoal by (simp add: transformDocuments_shows)
    subgoal by (simp add: transformDocuments_shows)
    subgoal by (rule transformDocuments_hides_password)
    subgoal by (rule transformDocuments_hides_password)
    done
qed

theorem register_with_password_witness:
  "(let cfg = sample_cfg\<lparr>accounts_passwordless_enabled := False\<rparr>;
        w = \<lparr>accounts = [], outbox = []\<rparr>
    in accounts_signup_enabled cfg \<and> \<not> accounts_verification_enabled cfg
       \<and> \<not> accounts_passwordless_enabled cfg \<and> \<not> accounts_username_enabled cfg
       \<and> getUserByEmail (r_email sample_registration) w = None
       \<and> truthy (r_password sample_registration)
       \<and> (\<exists>dto w1 a.
             register cfg sample_io sample_registration w = (Inr dto, w1)
           \<and> accounts w1 = [a] \<and> acc_id a = 1 \<and> email a = ''a@x.com''
           \<and> verified a \<and> \<not> passwordless a
           \<and> password a = Some (Bcrypt ''s1'' ''longenough1'')
           \<and> map_of dto ''token'' =
                 Some (VToken (Signed ''secret'' \<lparr>claim_id = Some 1, iat = 5, exp = 3605\<rparr>))
           \<and> map_of dto ''verified'' = Some (VBool True)
           \<and> map_of dto ''passwordless'' = Some (VBool False)
           \<and> ''password'' \<notin> fst ` set dto))"
proof -
  define cfg where "cfg = sample_cfg\<lparr>accounts_passwordless_enabled := False\<rparr>"
  define w where "w = \<lparr>accounts = [], outbox = ([] :: mail list)\<rparr>"
  have h1: "accounts_signup_enabled cfg" and h2: "\<not> accounts_verification_enabled cfg"
    and h2': "\<not> accounts_passwordless_enabled cfg" and nu: "\<not> accounts_username_enabled cfg"
    by (simp_all add: cfg_def sample_cfg_def)
  have h3: "getUserByEmail (r_email sample_registration) w = None"
    by (simp add: getUserByEmail_def findOne_def w_def)
  from nu have h4: "accounts_username_enabled cfg \<longrightarrow>
      truthy (r_username sample_registration)
      \<and> getUserByUsername (str (r_username sample_registration)) w = None"
    by simp
  have h5: "truthy (r_password sample_registration)" by (simp add: sample_registration_def)
  have h6: "JWT_SECRET cfg = Some ''secret''" and h7: "''secret'' \<noteq> []"
    and h8: "accounts_jwt_expiresIn cfg = Some 3600"
    by (simp_all add: cfg_def sample_cfg_def)
  have e: "fresh_id ([] :: account list) = 1" "r_email sample_registration = ''a@x.com''"
    "bcrypt_hash (str (r_password sample_registration)) (salt sample_io)
       = Bcrypt ''s1'' ''longenough1''"
    "now sample_io div 1000 = 5" "accounts w = []"
    by (simp_all add: fresh_id_def w_def sample_registration_def sample_io_def bcrypt_hash_def)
  from register_with_password [OF h1 h2 h3 h4 h5 h6 h7 h8, of sample_io]
  obtain dto w1 a where
    "register cfg sample_io sample_registration w = (Inr dto, w1)"
    "accounts w1 = [a]" "acc_id a = 1" "email a = ''a@x.com''"
    "verified a" "\<not> passwordless a"
    "password a = Some (Bcrypt ''s1'' ''longenough1'')"
    "map_of dto ''token'' =
       Some (VToken (Signed ''secret'' \<lparr>claim_id = Some 1, iat = 5, exp = 3605\<rparr>))"
    "map_of dto ''verified'' = Some (VBool True)"
    "map_of dto ''passwordless'' = Some (VBool False)"
    "''password'' \<notin> fst ` set dto"
    unfolding e by auto
  then have "\<exists>dto w1 a.
             register cfg sample_io sample_registration w = (Inr dto, w1)
           \<and> accounts w1 = [a] \<and> acc_id a = 1 \<and> email a = ''a@x.com''
           \<and> verified a \<and> \<not> passwordless a
           \<and> password a = Some (Bcrypt ''s1'' ''longenough1'')
           \<and> map_of dto ''token'' =
                 Some (VToken (Signed ''secret'' \<lparr>claim_id = Some 1, iat = 5, exp = 3605\<rparr>))
           \<and> map_of dto ''verified'' = Some (VBool True)
           \<and> map_of dto ''passwordless'' = Some (VBool False)
           \<and> ''password'' \<notin> fst ` set dto"
    by blast
  with h1 h2 h2' nu h3 h5 show ?thesis
    by (simp add: Let_def cfg_def [symmetric] w_def [symmetric])
qed

subsection \<open>The credential state\<close>

text \<open>An update that keeps a property of documents keeps it on the collection.\<close>

lemma update_first_preserves:
  assumes "\<And>a. Q a \<Longrightarrow> Q (f a)" and "\<forall>a\<in>set as. Q a"
  shows "\<forall>a\<in>set (update_first i f as). Q a"
  using assms by (induction as) auto

lemma updateById_preserves:
  assumes "\<And>a. Q a \<Longrightarrow> Q (f a)" and "\<forall>a\<in>set (accounts w). Q a"
  shows "\<forall>a\<in>set (accounts (snd (updateById i f w))). Q a"
  using update_first_preserves [OF assms] by (simp add: updateById_def Let_def)

lemma snd_withToken: "snd (withToken cfg x user w) = w"
  by (simp add: withToken_def split: sum.splits)

lemma accounts_sendMail: "accounts (snd (sendMail cfg x user tmpl tok w)) = accounts w"
  by (simp add: sendMail_def)

lemma register_credentials:
  assumes "\<forall>a\<in>set (accounts w). credential_ok a"
  shows "\<forall>a\<in>set (accounts (snd (register cfg x p w))). credential_ok a"
  using assms
  by (auto simp: register_def register_password_def insert_doc_def Let_def snd_withToken
        accounts_sendMail_async credential_ok_def bcrypt_hash_def
      split: option.splits sum.splits if_splits)

lemma set_update_firstD:
  "b \<in> set (update_first i f as) \<Longrightarrow> b \<in> set as \<or> b \<in> f ` set as"
  by (induction as) (auto split: if_splits)

lemma verify_credentials:
  assumes "\<forall>a\<in>set (accounts w). credential_ok a"
  shows "\<forall>a\<in>set (accounts (snd (verify cfg x token w))). credential_ok a"
  using assms
  by (auto simp: verify_def updateById_def Let_def accounts_sendMail_async credential_ok_def
      split: option.splits dest!: set_update_firstD)

lemma disable_credentials:
  assumes "\<forall>a\<in>set (accounts w). credential_ok a"
  shows "\<forall>a\<in>set (accounts (snd (disable user w))). credential_ok a"
  using assms
  by (auto simp: disable_def updateById_def Let_def credential_ok_def
      split: option.splits dest!: set_update_firstD)

lemma enable_credentials:
  assumes "\<forall>a\<in>set (accounts w). credential_ok a"
  shows "\<forall>a\<in>set (accounts (snd (enable user w))). credential_ok a"
  using assms
  by (auto simp: enable_def updateById_def Let_def credential_ok_def
      split: option.splits dest!: set_update_firstD)

lemma passwordless_action_credentials:
  assumes "\<forall>a\<in>set (accounts w). credential_ok a"
  shows "\<forall>a\<in>set (accounts (snd (passwordless_action cfg x token w))). credential_ok a"
  using assms
  by (auto simp: passwordless_action_def updateById_def Let_def credential_ok_def
      split: option.splits dest!: set_update_firstD)

lemma forgotpassword_credentials:
  assumes "\<forall>a\<in>set (accounts w). credential_ok a"
  shows "\<forall>a\<in>set (accounts (snd (forgotpassword cfg x e w))). credential_ok a"
  using assms
  by (auto simp: forgotpassword_def updateById_def Let_def accounts_sendMail_async
        credential_ok_def
      split: option.splits dest!: set_update_firstD)

text \<open>\<open>resetpassword\<close> turns the account into one with a hash and \<open>passwordless = false\<close>.\<close>

lemma resetpassword_credentials:
  assumes "\<forall>a\<in>set (accounts w). credential_ok a"
  shows "\<forall>a\<in>set (accounts (snd (resetpassword cfg x token pw w))). credential_ok a"
  using assms
  by (auto simp: resetpassword_def updateById_def Let_def accounts_sendMail_async
        credential_ok_def bcrypt_hash_def
      split: option.splits dest!: set_update_firstD)

lemma link_credentials:
  assumes "\<forall>a\<in>set (accounts w). credential_ok a"
  shows "\<forall>a\<in>set (accounts (snd (link i provider sid w))). credential_ok a"
  using assms
  by (auto simp: link_def updateById_def Let_def credential_ok_def dest!: set_update_firstD)

lemma link_action_credentials:
  assumes "\<forall>a\<in>set (accounts w). credential_ok a"
  shows "\<forall>a\<in>set (accounts (snd (link_action i provider prof w))). credential_ok a"
  using link_credentials [OF assms, of i provider "socialID prof"]
  by (simp add: link_action_def split: prod.splits option.splits)

lemma unlink_action_credentials:
  assumes "\<forall>a\<in>set (accounts w). credential_ok a"
  shows "\<forall>a\<in>set (accounts (snd (unlink_action m i provider w))). credential_ok a"
  using assms
  by (auto simp: unlink_action_def unlink_def updateById_def Let_def credential_ok_def
      split: option.splits dest!: set_update_firstD)

lemma login_credentials:
  assumes "\<forall>a\<in>set (accounts w). credential_ok a"
  shows "\<forall>a\<in>set (accounts (snd (login cfg x e pw token w))). credential_ok a"
  using assms by (simp add: login_keeps_world)

lemma link_withToken_credentials:
  assumes "\<forall>a\<in>set (accounts w). credential_ok a"
  shows "\<forall>a\<in>set (accounts (snd (link_withToken cfg x i provider prof w))). credential_ok a"
proof (cases i)
  case None
  with assms show ?thesis by (simp add: link_withToken_def)
next
  case (Some n)
  with link_credentials [OF assms, of n provider "socialID prof"] show ?thesis
    by (simp add: link_withToken_def snd_withToken split: prod.splits option.splits)
qed

lemma socialLogin_credentials:
  assumes "\<forall>a\<in>set (accounts w). credential_ok a"
  shows "\<forall>a\<in>set (accounts (snd (socialLogin cfg x m provider prof w))). credential_ok a"
proof -
  let ?p = "\<lparr>r_username = Some (social_username prof),
             r_password = Some (''$2b$10$'' @ genSalt x),
             r_email = str (p_email prof),
             r_firstName = p_firstName prof, r_lastName = p_lastName prof,
             r_avatar = p_avatar prof\<rparr>"
  obtain r w1 where reg: "register cfg x ?p w = (r, w1)" by (cases "register cfg x ?p w")
  with register_credentials [OF assms, of cfg x ?p]
  have w1: "\<forall>a\<in>set (accounts w1). credential_ok a" by simp
  have new: "\<forall>a\<in>set (accounts (snd (case r of Inl err \<Rightarrow> (Inl err, w1)
        | Inr user \<Rightarrow> link_withToken cfg x (dto_id user) provider prof w1))). credential_ok a"
    using w1 by (cases r) (simp_all add: link_withToken_credentials)
  from reg have reg': "register cfg x
             \<lparr>r_username = Some (social_username prof),
              r_password = Some (CHR ''$'' # CHR ''2'' # CHR ''b'' # CHR ''$'' # CHR ''1''
                                 # CHR ''0'' # CHR ''$'' # genSalt x),
              r_email = str (p_email prof),
              r_firstName = p_firstName prof, r_lastName = p_lastName prof,
              r_avatar = p_avatar prof\<rparr> w = (r, w1)"
    by simp
  show ?thesis
    using assms new
    by (simp add: socialLogin_def Let_def reg' snd_withToken link_withToken_credentials
          split: option.splits)
qed

lemma enable2Fa_credentials:
  assumes "\<forall>a\<in>set (accounts w). credential_ok a"
  shows "\<forall>a\<in>set (accounts (snd (enable2Fa cfg x m token w))). credential_ok a"
  using assms
  by (auto simp: enable2Fa_def updateById_def Let_def credential_ok_def
        set_totp_enabled_def set_totp_secret_def
      split: option.splits dest!: set_update_firstD)

lemma disable2Fa_credentials:
  assumes "\<forall>a\<in>set (accounts w). credential_ok a"
  shows "\<forall>a\<in>set (accounts (snd (disable2Fa m token w))). credential_ok a"
  using assms
  by (auto simp: disable2Fa_def updateById_def Let_def credential_ok_def
        set_totp_enabled_def set_totp_secret_def
      split: option.splits dest!: set_update_firstD)

text \<open>
  C2, as stated, fails: \<open>register\<close> without a password, with the passwordless feature
  enabled, stores an account whose \<open>password\<close> field is set (to the random placeholder)
  and whose \<open>passwordless\<close> flag is true: both members of the pair hold.
\<close>

theorem register_passwordless_sets_password:
  "accounts_passwordless_enabled sample_cfg
   \<and> map (\<lambda>a. (password a, passwordless a))
         (accounts (snd (register sample_cfg sample_io
                           (sample_registration\<lparr>r_password := None\<rparr>)
                           \<lparr>accounts = [], outbox = []\<rparr>)))
       = [(Some (Opaque ''t1''), True)]"
  by (simp add: register_def register_username_def register_password_def getUserByEmail_def
        findOne_def insert_doc_def Let_def snd_withToken accounts_sendMail_async
        sample_cfg_def sample_io_def sample_registration_def)

text \<open>One action keeps the credential state of every account.\<close>

lemma perform_keeps_credentials:
  assumes "\<forall>a\<in>set (accounts w). credential_ok a"
  shows "\<forall>a\<in>set (accounts (perform cfg act w)). credential_ok a"
proof (cases act)
  case (Register x p)
  then show ?thesis using register_credentials [OF assms] by simp
next
  case (Verify x token)
  then show ?thesis using verify_credentials [OF assms] by simp
next
  case (Disable i)
  then show ?thesis using assms disable_credentials [OF assms]
    by (cases "findById (Some i) w") simp_all
next
  case (Enable i)
  then show ?thesis using assms enable_credentials [OF assms]
    by (cases "findById (Some i) w") simp_all
next
  case (Passwordless x token)
  then show ?thesis using passwordless_action_credentials [OF assms] by simp
next
  case (ForgotPassword x e)
  then show ?thesis using forgotpassword_credentials [OF assms] by simp
next
  case (ResetPassword x token pw)
  then show ?thesis using resetpassword_credentials [OF assms] by simp
next
  case (Link i provider prof)
  then show ?thesis using link_action_credentials [OF assms] by simp
next
  case (Unlink m i provider)
  then show ?thesis using unlink_action_credentials [OF assms] by simp
next
  case (Login x e pw token)
  then show ?thesis using login_credentials [OF assms] by simp
next
  case (SocialLogin x m provider prof)
  then show ?thesis using socialLogin_credentials [OF assms] by simp
next
  case (Enable2Fa x m token)
  then show ?thesis using enable2Fa_credentials [OF assms] by simp
next
  case (Disable2Fa m token)
  then show ?thesis using disable2Fa_credentials [OF assms] by simp
qed

text \<open>
  C2, amended. Every run of actions keeps the credential state of every account: the
  \<open>password\<close> field is set, and exactly one of \<open>password holds a bcrypt hash\<close> and
  \<open>passwordless = true\<close> holds. \<open>register\<close> (also when \<open>socialLogin\<close> calls it) creates
  accounts in that state (a hash, or the random placeholder with
  \<open>passwordless = true\<close>), \<open>resetpassword\<close> moves an account to the hashed state, and no
  other action writes either field.
\<close>

theorem perform_credentials:
  assumes "\<forall>a\<in>set (accounts w). credential_ok a"
  shows "\<forall>a\<in>set (accounts (foldl (\<lambda>w act. perform cfg act w) w acts)). credential_ok a"
  using assms
proof (induction acts arbitrary: w)
  case Nil
  then show ?case by simp
next
  case (Cons act acts)
  from Cons.prems have "\<forall>a\<in>set (accounts (perform cfg act w)). credential_ok a"
    by (rule perform_keeps_credentials)
  then have "\<forall>a\<in>set (accounts (foldl (\<lambda>w act. perform cfg act w)
                                      (perform cfg act w) acts)). credential_ok a"
    by (rule Cons.IH)
  then show ?case by simp
qed

theorem perform_credentials_witness:
  "credential_ok alice
   \<and> list_all credential_ok
         (accounts (foldl (\<lambda>w act. perform sample_cfg act w)
            \<lparr>accounts = [alice], outbox = []\<rparr>
            [Register sample_io
               (sample_registration\<lparr>r_email := ''b@x.com'', r_password := None\<rparr>)]))
   \<and> map (\<lambda>a. (is_hash (password a), passwordless a))
         (accounts (foldl (\<lambda>w act. perform sample_cfg act w)
            \<lparr>accounts = [alice], outbox = []\<rparr>
            [Register sample_io
               (sample_registration\<lparr>r_email := ''b@x.com'', r_password := None\<rparr>)]))
       = [(True, False), (False, True)]"
proof -
  have h: "credential_ok alice" by (simp add: credential_ok_def alice_def)
  then have "\<forall>a\<in>set (accounts \<lparr>accounts = [alice], outbox = []\<rparr>). credential_ok a"
    by simp
  from perform_credentials [OF this]
  have "list_all credential_ok
         (accounts (foldl (\<lambda>w act. perform sample_cfg act w)
            \<lparr>accounts = [alice], outbox = []\<rparr>
            [Register sample_io
               (sample_registration\<lparr>r_email := ''b@x.com'', r_password := None\<rparr>)]))"
    unfolding list_all_iff by blast
  moreover have "map (\<lambda>a. (is_hash (password a), passwordless a))
         (accounts (foldl (\<lambda>w act. perform sample_cfg act w)
            \<lparr>accounts = [alice], outbox = []\<rparr>
            [Register sample_io
               (sample_registration\<lparr>r_email := ''b@x.com'', r_password := None\<rparr>)]))
       = [(True, False), (False, True)]"
    by (simp add: register_def register_username_def register_password_def getUserByEmail_def
        findOne_def insert_doc_def Let_def snd_withToken accounts_sendMail_async
        sample_cfg_def sample_io_def sample_registration_def alice_def)
  ultimately show ?thesis using h by blast
qed

subsection \<open>Replay of a magic link\<close>

lemma same_id_same_document:
  "distinct (map acc_id as) \<Longrightarrow> a \<in> set as \<Longrightarrow> b \<in> set as \<Longrightarrow> acc_id a = acc_id b
   \<Longrightarrow> a = b"
  by (induction as) (auto simp: image_iff)

text \<open>
  What \<open>passwordless\<close> does on a token that is found, enabled and unexpired: it returns
  the session token of the account and marks the account verified. It writes nothing
  else.
\<close>

lemma passwordless_action_success:
  assumes feature: "accounts_passwordless_enabled cfg"
    and found: "findOne (\<lambda>a. passwordlessToken a = Some token) w = Some user"
    and enabled: "status user = 1"
    and unexpired: "\<not> js_lt (passwordlessTokenExpires user) (now x)"
    and ids: "distinct (map acc_id (accounts w))"
    and key: "JWT_SECRET cfg = Some key" "key \<noteq> []"
    and ttl: "accounts_jwt_expiresIn cfg = Some ttl"
  shows "passwordless_action cfg x token w =
           (Inr (Signed key \<lparr>claim_id = Some (acc_id user), iat = now x div 1000,
                             exp = now x div 1000 + ttl\<rparr>),
            w\<lparr>accounts := map (\<lambda>a. if acc_id a = acc_id user then a\<lparr>verified := True\<rparr> else a)
                              (accounts w)\<rparr>)"
proof -
  let ?f = "\<lambda>a. a\<lparr>verified := True\<rparr>"
  let ?g = "\<lambda>a. if acc_id a = acc_id user then ?f a else a"
  from found have mem: "user \<in> set (accounts w)" by (simp add: findOne_SomeD)
  have upd: "updateById (acc_id user) ?f w = (Some (?f user), w\<lparr>accounts := map ?g (accounts w)\<rparr>)"
    using ids mem by (rule updateById_found) simp
  show ?thesis
  proof (cases "verified user")
    case True
    have "\<forall>a\<in>set (accounts w). ?g a = a"
    proof
      fix a assume a: "a \<in> set (accounts w)"
      show "?g a = a"
      proof (cases "acc_id a = acc_id user")
        case same: True
        with ids a mem have "a = user" by (rule same_id_same_document)
        with True show ?thesis by simp
      next
        case False
        then show ?thesis by simp
      qed
    qed
    then have "map ?g (accounts w) = accounts w" by (simp add: map_idI)
    with True feature found enabled unexpired key ttl show ?thesis
      by (simp add: passwordless_action_def getToken_Signed)
  next
    case False
    with feature found enabled unexpired key ttl show ?thesis
      by (simp add: passwordless_action_def upd getToken_Signed)
  qed
qed

text \<open>
  The token survives its use: under the same conditions a second call with the same
  token, at any time \<open>now x2\<close> at which the stored expiry has not passed, returns a
  session token for the account again.
\<close>

lemma passwordless_action_twice:
  assumes feature: "accounts_passwordless_enabled cfg"
    and found: "findOne (\<lambda>a. passwordlessToken a = Some token) w = Some user"
    and enabled: "status user = 1"
    and unexpired: "\<not> js_lt (passwordlessTokenExpires user) (now x)"
      "\<not> js_lt (passwordlessTokenExpires user) (now x2)"
    and ids: "distinct (map acc_id (accounts w))"
    and key: "JWT_SECRET cfg = Some key" "key \<noteq> []"
    and ttl: "accounts_jwt_expiresIn cfg = Some ttl"
  shows "\<exists>w1. snd (passwordless_action cfg x token w) = w1
           \<and> fst (passwordless_action cfg x2 token w1) =
               Inr (Signed key \<lparr>claim_id = Some (acc_id user), iat = now x2 div 1000,
                                 exp = now x2 div 1000 + ttl\<rparr>)"
proof -
  let ?g = "\<lambda>a. if acc_id a = acc_id user then a\<lparr>verified := True\<rparr> else a"
  let ?w1 = "w\<lparr>accounts := map ?g (accounts w)\<rparr>"
  have first: "snd (passwordless_action cfg x token w) = ?w1"
    using passwordless_action_success [OF feature found enabled unexpired(1) ids key ttl]
    by simp
  have "find (\<lambda>a. passwordlessToken a = Some token) (map ?g (accounts w)) =
      map_option ?g (find (\<lambda>a. passwordlessToken a = Some token) (accounts w))"
    by (rule find_map_invariant) simp
  with found have found1:
    "findOne (\<lambda>a. passwordlessToken a = Some token) ?w1 = Some (user\<lparr>verified := True\<rparr>)"
    by (simp add: findOne_def)
  have "map acc_id (map ?g (accounts w)) = map acc_id (accounts w)"
    by (rule map_acc_id_update) simp
  with ids have ids1: "distinct (map acc_id (accounts ?w1))" by (simp del: map_map)
  have "fst (passwordless_action cfg x2 token ?w1) =
      Inr (Signed key \<lparr>claim_id = Some (acc_id (user\<lparr>verified := True\<rparr>)),
                        iat = now x2 div 1000, exp = now x2 div 1000 + ttl\<rparr>)"
    using passwordless_action_success [OF feature found1 _ _ ids1 key ttl, of x2]
      enabled unexpired(2)
    by simp
  with first show ?thesis by simp
qed

subsection \<open>Two-factor authentication is never enabled\<close>

text \<open>
  The only write of \<open>totp.enabled = true\<close> in the source follows the call of
  \<open>this.verify2FA\<close> in \<open>enable2Fa\<close>. No action reaches it: a collection in which no
  account has 2FA enabled stays so under every action.
\<close>

lemma register_totp_off:
  assumes "\<forall>a\<in>set (accounts w). \<not> totp_enabled a"
  shows "\<forall>a\<in>set (accounts (snd (register cfg x p w))). \<not> totp_enabled a"
  using assms
  by (auto simp: register_def insert_doc_def Let_def snd_withToken
        accounts_sendMail_async totp_enabled_def
      split: option.splits sum.splits if_splits)

lemma link_totp_off:
  assumes "\<forall>a\<in>set (accounts w). \<not> totp_enabled a"
  shows "\<forall>a\<in>set (accounts (snd (link i provider sid w))). \<not> totp_enabled a"
  using assms
  by (auto simp: link_def updateById_def Let_def totp_enabled_def dest!: set_update_firstD)

lemma link_withToken_totp_off:
  assumes "\<forall>a\<in>set (accounts w). \<not> totp_enabled a"
  shows "\<forall>a\<in>set (accounts (snd (link_withToken cfg x i provider prof w))). \<not> totp_enabled a"
proof (cases i)
  case None
  with assms show ?thesis by (simp add: link_withToken_def)
next
  case (Some n)
  with link_totp_off [OF assms, of n provider "socialID prof"] show ?thesis
    by (simp add: link_withToken_def snd_withToken split: prod.splits option.splits)
qed

lemma socialLogin_totp_off:
  assumes "\<forall>a\<in>set (accounts w). \<not> totp_enabled a"
  shows "\<forall>a\<in>set (accounts (snd (socialLogin cfg x m provider prof w))). \<not> totp_enabled a"
proof -
  let ?p = "\<lparr>r_username = Some (social_username prof),
             r_password = Some (CHR ''$'' # CHR ''2'' # CHR ''b'' # CHR ''$'' # CHR ''1''
                                # CHR ''0'' # CHR ''$'' # genSalt x),
             r_email = str (p_email prof),
             r_firstName = p_firstName prof, r_lastName = p_lastName prof,
             r_avatar = p_avatar prof\<rparr>"
  obtain r w1 where reg: "register cfg x ?p w = (r, w1)" by (cases "register cfg x ?p w")
  with register_totp_off [OF assms, of cfg x ?p]
  have w1: "\<forall>a\<in>set (accounts w1). \<not> totp_enabled a" by simp
  have new: "\<forall>a\<in>set (accounts (snd (case r of Inl err \<Rightarrow> (Inl err, w1)
        | Inr user \<Rightarrow> link_withToken cfg x (dto_id user) provider prof w1))). \<not> totp_enabled a"
    using w1 by (cases r) (simp_all add: link_withToken_totp_off)
  show ?thesis
    using assms new
    by (simp add: socialLogin_def Let_def reg snd_withToken link_withToken_totp_off
          split: option.splits)
qed

lemma perform_keeps_totp_off:
  assumes "\<forall>a\<in>set (accounts w). \<not> totp_enabled a"
  shows "\<forall>a\<in>set (accounts (perform cfg act w)). \<not> totp_enabled a"
proof (cases act)
  case (Register x p)
  then show ?thesis using register_totp_off [OF assms] by simp
next
  case (Verify x token)
  then show ?thesis using assms
    by (auto simp: verify_def updateById_def Let_def accounts_sendMail_async totp_enabled_def
        split: option.splits dest!: set_update_firstD)
next
  case (Disable i)
  then show ?thesis using assms
    by (auto simp: disable_def updateById_def Let_def totp_enabled_def
        split: option.splits dest!: set_update_firstD)
next
  case (Enable i)
  then show ?thesis using assms
    by (auto simp: enable_def updateById_def Let_def totp_enabled_def
        split: option.splits dest!: set_update_firstD)
next
  case (Passwordless x token)
  then show ?thesis using assms
    by (auto simp: passwordless_action_def updateById_def Let_def totp_enabled_def
        split: option.splits dest!: set_update_firstD)
next
  case (ForgotPassword x e)
  then show ?thesis using assms
    by (auto simp: forgotpassword_def updateById_def Let_def accounts_sendMail_async
          totp_enabled_def
        split: option.splits dest!: set_update_firstD)
next
  case (ResetPassword x token pw)
  then show ?thesis using assms
    by (auto simp: resetpassword_def updateById_def Let_def accounts_sendMail_async
          totp_enabled_def
        split: option.splits dest!: set_update_firstD)
next
  case (Link i provider prof)
  then show ?thesis using link_totp_off [OF assms, of i provider "socialID prof"]
    by (simp add: link_action_def split: prod.splits option.splits)
next
  case (Unlink m i provider)
  then show ?thesis using assms
    by (auto simp: unlink_action_def unlink_def updateById_def Let_def totp_enabled_def
        split: option.splits dest!: set_update_firstD)
next
  case (Login x e pw token)
  then show ?thesis using assms by (simp add: login_keeps_world)
next
  case (SocialLogin x m provider prof)
  then show ?thesis using socialLogin_totp_off [OF assms] by simp
next
  case (Enable2Fa x m token)
  then show ?thesis using assms
    by (auto simp: enable2Fa_def updateById_def Let_def totp_enabled_def
          set_totp_enabled_def set_totp_secret_def
        split: option.splits dest!: set_update_firstD)
next
  case (Disable2Fa m token)
  then show ?thesis using assms
    by (auto simp: disable2Fa_def split: option.splits)
qed

end
